theory Spec2Isabelle
  imports Complex_Main
begin

section \<open>Data model\<close>

text \<open>
  The order lifecycle of the food-delivery backend: the \<^verbatim>\<open>Order\<close> schema
  (models/Order.js), the order routes (POST /api/orders, PUT /api/orders/:id/status,
  PUT /api/orders/:id/cancel, PUT /api/orders/:id/assign-driver,
  POST /api/orders/:id/repeat), the payment routes (create-intent, confirm, refund,
  webhook) and the part of POST /api/reviews that writes the order.

  Conventions of the embedding.
  \<^item> A JavaScript \<^verbatim>\<open>Number\<close> is an IEEE double: a finite value, given by the rational
    it denotes, an infinity or NaN. Every arithmetic operation rounds its exact result
    to the nearest double, ties to even. The sign of zero is not kept: no handler
    divides by a variable or otherwise observes it.
  \<^item> A number of a JSON body is a decimal literal, a rational, which the parser
    rounds to a double.
  \<^item> An ObjectId is a natural number, a \<^verbatim>\<open>Date\<close> is a number of milliseconds.
  \<^item> A collection is a list of documents; \<^verbatim>\<open>findById\<close> and \<^verbatim>\<open>findOne\<close> return the
    first match.
  \<^item> Record fields carry a short prefix of their record (\<open>o_status\<close> is
    \<^verbatim>\<open>order.status\<close>), since field names are global constants.
  \<^item> Every \<^verbatim>\<open>return res.status(..)\<close> of a handler is a value of \<open>error\<close>; the
    handler's \<^verbatim>\<open>catch\<close> block is the branch that yields \<open>ServerError\<close>
    (order and review routes, webhook) or \<open>PaymentGatewayError\<close> (payment routes).
\<close>

type_synonym object_id = nat
type_synonym date = nat

subsection \<open>Numbers\<close>

datatype js_number = Finite rat | Infinity | NegInfinity | NaN

text \<open>The number of binary digits of a natural number.\<close>

fun bits :: "nat \<Rightarrow> nat" where
  "bits n = (if n = 0 then 0 else Suc (bits (n div 2)))"

definition pow2 :: "int \<Rightarrow> rat" where
  "pow2 e = (if 0 \<le> e then 2 ^ nat e else 1 / 2 ^ nat (- e))"

text \<open>The integer part of the binary logarithm of a positive rational.\<close>

definition ilog2 :: "rat \<Rightarrow> int" where
  "ilog2 x = (if 1 \<le> x then int (bits (nat \<lfloor>x\<rfloor>)) - 1
              else - int (bits (nat (\<lceil>1 / x\<rceil> - 1))))"

text \<open>Rounding to the nearest integer, a tie going to the even one.\<close>

definition round_even :: "rat \<Rightarrow> int" where
  "round_even x =
     (let n = \<lfloor>x\<rfloor>; r = x - of_int n
      in if r < 1 / 2 then n else if 1 / 2 < r then n + 1 else if even n then n else n + 1)"

text \<open>
  The double nearest to a positive rational: a significand of 53 bits, the exponent of
  the last place not below -1074 (subnormal numbers), and infinity once the
  rounded value reaches \<open>2 ^ 1024\<close>.
\<close>

definition fl_pos :: "rat \<Rightarrow> js_number" where
  "fl_pos x =
     (let e = max (ilog2 x - 52) (- 1074);
          y = of_int (round_even (x / pow2 e)) * pow2 e
      in if 2 ^ 1024 \<le> y then Infinity else Finite y)"

fun js_neg :: "js_number \<Rightarrow> js_number" where
  "js_neg (Finite a) = Finite (- a)"
| "js_neg Infinity = NegInfinity"
| "js_neg NegInfinity = Infinity"
| "js_neg NaN = NaN"

definition fl :: "rat \<Rightarrow> js_number" where
  "fl x = (if x = 0 then Finite 0 else if 0 < x then fl_pos x else js_neg (fl_pos (- x)))"

text \<open>The operators \<^verbatim>\<open>+\<close>, \<^verbatim>\<open>*\<close> and \<^verbatim>\<open>/\<close> on numbers.\<close>

fun js_add :: "js_number \<Rightarrow> js_number \<Rightarrow> js_number" where
  "js_add (Finite a) (Finite b) = fl (a + b)"
| "js_add NaN y = NaN"
| "js_add x NaN = NaN"
| "js_add Infinity NegInfinity = NaN"
| "js_add NegInfinity Infinity = NaN"
| "js_add Infinity y = Infinity"
| "js_add NegInfinity y = NegInfinity"
| "js_add x Infinity = Infinity"
| "js_add x NegInfinity = NegInfinity"

text \<open>The sign of a number that is not NaN: -1, 0 or 1.\<close>

fun js_sign :: "js_number \<Rightarrow> int" where
  "js_sign (Finite a) = (if a = 0 then 0 else if 0 < a then 1 else - 1)"
| "js_sign Infinity = 1"
| "js_sign NegInfinity = - 1"
| "js_sign NaN = 0"

fun js_mul :: "js_number \<Rightarrow> js_number \<Rightarrow> js_number" where
  "js_mul (Finite a) (Finite b) = fl (a * b)"
| "js_mul NaN y = NaN"
| "js_mul x NaN = NaN"
| "js_mul x y =
     (if js_sign x * js_sign y = 0 then NaN
      else if 0 < js_sign x * js_sign y then Infinity else NegInfinity)"

text \<open>\<^verbatim>\<open>x / 100\<close>: the only division of the handlers is by this literal.\<close>

fun js_div_100 :: "js_number \<Rightarrow> js_number" where
  "js_div_100 (Finite a) = fl (a / 100)"
| "js_div_100 x = x"

text \<open>
  \<^verbatim>\<open>Math.round\<close>: the nearest integer, a half rounded up; computed on the value of
  the double, without a rounding of its own.
\<close>

fun js_round :: "js_number \<Rightarrow> js_number" where
  "js_round (Finite a) = Finite (of_int \<lfloor>a + 1 / 2\<rfloor>)"
| "js_round x = x"

text \<open>\<^verbatim>\<open>Math.max\<close> of two numbers.\<close>

fun js_max :: "js_number \<Rightarrow> js_number \<Rightarrow> js_number" where
  "js_max (Finite a) (Finite b) = Finite (max a b)"
| "js_max NaN y = NaN"
| "js_max x NaN = NaN"
| "js_max Infinity y = Infinity"
| "js_max x Infinity = Infinity"
| "js_max NegInfinity y = y"
| "js_max x NegInfinity = x"

text \<open>A number is falsy when it is 0 or NaN.\<close>

definition js_truthy :: "js_number \<Rightarrow> bool" where
  "js_truthy x \<longleftrightarrow> x \<noteq> Finite 0 \<and> x \<noteq> NaN"

text \<open>\<^verbatim>\<open>x || 0\<close> on an optional number of the body.\<close>

definition number_or_zero :: "rat option \<Rightarrow> js_number" where
  "number_or_zero x =
     (case x of None \<Rightarrow> Finite 0 | Some r \<Rightarrow> if js_truthy (fl r) then fl r else Finite 0)"

subsection \<open>Enums, users, responses\<close>

datatype order_type = Delivery | Pickup

datatype order_status =
  Pending | Confirmed | Preparing | Ready_for_pickup | Out_for_delivery
  | Delivered | Cancelled | Refunded

datatype payment_method = Card | Cash | Paypal | Wallet

datatype payment_status =
  Pay_pending | Pay_processing | Pay_completed | Pay_failed | Pay_refunded

text \<open>The \<^verbatim>\<open>role\<close> enum of the user schema, and the string each role is stored as.\<close>

datatype role = Customer | Restaurant_owner | Delivery_driver | Admin

fun role_string :: "role \<Rightarrow> string" where
  "role_string Customer = ''customer''"
| "role_string Restaurant_owner = ''restaurant_owner''"
| "role_string Delivery_driver = ''delivery_driver''"
| "role_string Admin = ''admin''"

record user =
  u_id :: object_id
  u_role :: role
  u_isActive :: bool
  u_phone :: string

text \<open>
  The responses of the handlers that are not a success. \<open>IllegalTransition\<close> is the
  400 response \<^verbatim>\<open>Cannot change status from ${order.status} to ${status}\<close> and
  carries both statuses; \<open>ItemUnavailable\<close> is the 400 response
  \<^verbatim>\<open>Item ${orderItem.menuItem} is not available\<close>.
\<close>

datatype error =
  ValidationError
  | NotFound
  | NotAuthorized
  | ItemUnavailable object_id
  | IllegalTransition order_status order_status
  | NotCancellable
  | OrderNotPayable
  | NotRefundable
  | PaymentGatewayError
  | InvalidSignature
  | ServerError
  | InvalidDriver
  | RestaurantUnavailable
  | NotDelivered
  | AlreadyExists
  | RestaurantMismatch

subsection \<open>Catalog\<close>

text \<open>The fields of the menu schema that the order route reads.\<close>

record menu_option =
  mo_name :: string
  mo_price :: js_number

record menu_customization =
  mc_name :: string
  mc_options :: "menu_option list"

record menu_size =
  ms_name :: string
  ms_price :: js_number

record menu_item =
  mi_id :: object_id
  mi_name :: string
  mi_price :: js_number
  mi_isAvailable :: bool
  mi_customizations :: "menu_customization list"
  mi_sizes :: "menu_size list"

record menu =
  m_restaurant :: object_id
  m_isActive :: bool
  m_items :: "menu_item list"

record restaurant =
  r_id :: object_id
  r_owner :: object_id
  r_isActive :: bool
  r_deliveryFee :: js_number
  r_estimatedDeliveryTime :: nat

subsection \<open>Order\<close>

text \<open>
  A requested customization names a customization of the item and carries the list of
  the names of the options chosen in it; a requested size is the name of a size.
\<close>

record req_customization =
  rc_name :: string
  rc_options :: "string list"

record order_item =
  oi_menuItem :: object_id
  oi_name :: string
  oi_price :: js_number
  oi_quantity :: js_number
  oi_size :: "string option"
  oi_customizations :: "req_customization list"
  oi_subtotal :: js_number

record pricing =
  p_subtotal :: js_number
  p_tax :: js_number
  p_deliveryFee :: js_number
  p_serviceFee :: js_number
  p_discount :: js_number
  p_tip :: js_number
  p_total :: js_number

record payment =
  pay_method :: payment_method
  pay_status :: payment_status
  pay_transactionId :: "string option"
  pay_stripePaymentIntentId :: "string option"
  pay_paidAt :: "date option"
  pay_refundedAt :: "date option"
  pay_refundAmount :: "js_number option"

record delivered_rec =
  d_timestamp :: date
  d_deliveredBy :: "string option"
  d_signature :: "string option"
  d_photo :: "string option"

record cancelled_rec =
  c_timestamp :: date
  c_reason :: "string option"
  c_cancelledBy :: "string option"

text \<open>
  \<open>t_orderConfirmed\<close> and \<open>t_preparationStarted\<close> hold (timestamp, estimatedTime),
  \<open>t_outForDelivery\<close> holds (timestamp, estimatedArrival).
\<close>

record tracking =
  t_orderPlaced :: "date option"
  t_orderConfirmed :: "(date \<times> nat) option"
  t_preparationStarted :: "(date \<times> nat) option"
  t_readyForPickup :: "date option"
  t_outForDelivery :: "(date \<times> date) option"
  t_delivered :: "delivered_rec option"
  t_cancelled :: "cancelled_rec option"

record feedback =
  f_rating :: int
  f_comment :: string
  f_foodQuality :: "int option"
  f_deliverySpeed :: "int option"
  f_driverRating :: "int option"
  f_submittedAt :: date

text \<open>
  \<open>o_restaurant_owner\<close> is \<^verbatim>\<open>order.restaurant.owner\<close> as the handlers read it
  through \<^verbatim>\<open>populate('restaurant', 'owner')\<close>; a restaurant is only ever
  deactivated, never removed (DELETE /api/restaurants/:id), so the reference resolves.
  \<open>o_orderNumber\<close> is optional because the handlers build documents without it.
\<close>

record order =
  o_id :: object_id
  o_orderNumber :: "string option"
  o_customer :: object_id
  o_restaurant :: object_id
  o_restaurant_owner :: object_id
  o_items :: "order_item list"
  o_orderType :: order_type
  o_status :: order_status
  o_deliveryAddress :: "string option"
  o_estimatedDeliveryTime :: "date option"
  o_actualDeliveryTime :: "date option"
  o_pricing :: pricing
  o_payment :: payment
  o_deliveryDriver :: "object_id option"
  o_tracking :: tracking
  o_customerPhone :: "string option"
  o_driverPhone :: "string option"
  o_feedback :: "feedback option"
  o_repeatOrder :: bool
  o_originalOrder :: "object_id option"

section \<open>The order store\<close>

text \<open>
  The orders collection. \<open>findById\<close> is \<^verbatim>\<open>Order.findById\<close>, \<open>findByIntent\<close> is
  \<^verbatim>\<open>Order.findOne({'payment.stripePaymentIntentId': id})\<close>, \<open>store\<close> writes a
  document back under its identifier.
\<close>

definition findById :: "order list \<Rightarrow> object_id \<Rightarrow> order option" where
  "findById orders i = find (\<lambda>d. o_id d = i) orders"

definition findByIntent :: "order list \<Rightarrow> string \<Rightarrow> order option" where
  "findByIntent orders pid =
     find (\<lambda>d. pay_stripePaymentIntentId (o_payment d) = Some pid) orders"

definition store :: "order list \<Rightarrow> order \<Rightarrow> order list" where
  "store orders ord = map (\<lambda>d. if o_id d = o_id ord then ord else d) orders"

text \<open>
  The enum of \<^verbatim>\<open>tracking.cancelled.cancelledBy\<close> in the schema, and its validator:
  an absent value passes.
\<close>

definition cancelledBy_enum :: "string list" where
  "cancelledBy_enum = [''customer'', ''restaurant'', ''admin'', ''system'']"

definition cancelledBy_valid :: "order \<Rightarrow> bool" where
  "cancelledBy_valid ord =
     (case t_cancelled (o_tracking ord) of
        None \<Rightarrow> True
      | Some c \<Rightarrow> (case c_cancelledBy c of None \<Rightarrow> True | Some r \<Rightarrow> r \<in> set cancelledBy_enum))"

text \<open>
  The property of a stored order that the enum is meant to grant: when the order has a
  cancelled tracking record, the record has a \<^verbatim>\<open>cancelledBy\<close>, and it is in the enum.
\<close>

definition cancelledBy_in_enum :: "order \<Rightarrow> bool" where
  "cancelledBy_in_enum ord =
     (case t_cancelled (o_tracking ord) of
        None \<Rightarrow> True
      | Some c \<Rightarrow> (case c_cancelledBy c of None \<Rightarrow> False | Some r \<Rightarrow> r \<in> set cancelledBy_enum))"

text \<open>The validator \<^verbatim>\<open>min: 1\<close> of the quantity of an item.\<close>

fun quantity_valid :: "js_number \<Rightarrow> bool" where
  "quantity_valid (Finite q) = (1 \<le> q)"
| "quantity_valid Infinity = True"
| "quantity_valid NegInfinity = False"
| "quantity_valid NaN = False"

text \<open>
  The cast of a path of type \<^verbatim>\<open>Number\<close> refuses NaN, and accepts every other
  number.
\<close>

definition is_number :: "js_number \<Rightarrow> bool" where
  "is_number x \<longleftrightarrow> x \<noteq> NaN"

definition item_valid :: "order_item \<Rightarrow> bool" where
  "item_valid i \<longleftrightarrow>
     oi_name i \<noteq> [] \<and> is_number (oi_price i) \<and> quantity_valid (oi_quantity i)
     \<and> is_number (oi_subtotal i)"

definition pricing_valid :: "pricing \<Rightarrow> bool" where
  "pricing_valid p \<longleftrightarrow>
     is_number (p_subtotal p) \<and> is_number (p_tax p) \<and> is_number (p_deliveryFee p)
     \<and> is_number (p_serviceFee p) \<and> is_number (p_discount p) \<and> is_number (p_tip p)
     \<and> is_number (p_total p)"

text \<open>
  The validation that \<^verbatim>\<open>save()\<close> and \<^verbatim>\<open>create()\<close> run on the whole document before
  every other pre-save hook. The paths marked \<^verbatim>\<open>required\<close> are present, and a
  required string is not empty: the types of the record grant this for all but the
  order number and the name of an item. The numbers pass their cast; the quantities
  are at least 1; \<^verbatim>\<open>cancelledBy\<close> is in its enum; a feedback rating is between 1 and
  5. The other enums hold by the types.
\<close>

definition schema_valid :: "order \<Rightarrow> bool" where
  "schema_valid ord \<longleftrightarrow>
     (case o_orderNumber ord of None \<Rightarrow> False | Some n \<Rightarrow> n \<noteq> [])
     \<and> list_all item_valid (o_items ord)
     \<and> pricing_valid (o_pricing ord)
     \<and> (case pay_refundAmount (o_payment ord) of None \<Rightarrow> True | Some a \<Rightarrow> is_number a)
     \<and> cancelledBy_valid ord
     \<and> (case o_feedback ord of None \<Rightarrow> True | Some f \<Rightarrow> 1 \<le> f_rating f \<and> f_rating f \<le> 5)"

text \<open>\<^verbatim>\<open>save()\<close> of a stored document: a failed validation rejects, here \<open>None\<close>.\<close>

definition save :: "order list \<Rightarrow> order \<Rightarrow> order list option" where
  "save orders ord = (if schema_valid ord then Some (store orders ord) else None)"

text \<open>
  The decimal digits of a natural number, and the order number of the pre-save hook,
  \<^verbatim>\<open>ORD${Date.now()}${(count + 1).toString().padStart(4, '0')}\<close>.
\<close>

fun decimal :: "nat \<Rightarrow> string" where
  "decimal n =
     (if n < 10 then [''0123456789'' ! n]
      else decimal (n div 10) @ [''0123456789'' ! (n mod 10)])"

definition orderNumber :: "date \<Rightarrow> nat \<Rightarrow> string" where
  "orderNumber now count =
     ''ORD'' @ decimal now
       @ replicate (4 - length (decimal (count + 1))) (CHR ''0'') @ decimal (count + 1)"

text \<open>
  \<^verbatim>\<open>Order.create\<close> of a new document: the validation comes first, and only then
  the hook \<^verbatim>\<open>orderSchema.pre('save')\<close> sets the order number and the document is
  inserted. A document without an order number is rejected by the validation.
\<close>

definition Order_create :: "order list \<Rightarrow> date \<Rightarrow> order \<Rightarrow> (order \<times> order list) option" where
  "Order_create orders now doc =
     (if schema_valid doc then
        (let doc' = doc\<lparr> o_orderNumber := Some (orderNumber now (length orders)) \<rparr>
         in Some (doc', orders @ [doc']))
      else None)"

section \<open>Order creation: POST /api/orders\<close>

text \<open>
  The body of the request. A quantity is an integer literal, a tip a number literal
  or absent.
\<close>

record req_item =
  ri_menuItem :: object_id
  ri_quantity :: int
  ri_size :: "string option"
  ri_customizations :: "req_customization list"

record create_req =
  cr_restaurant :: object_id
  cr_items :: "req_item list"
  cr_orderType :: order_type
  cr_deliveryAddress :: "string option"
  cr_scheduledDeliveryTime :: "date option"
  cr_payment_method :: payment_method
  cr_tip :: "rat option"

text \<open>
  The validator \<^verbatim>\<open>isInt({ min: 1 })\<close> reads the number as a string: an integer of
  at least 1, and below \<open>10 ^ 21\<close>, from where on a number prints with an exponent.
\<close>

fun isInt_min1 :: "js_number \<Rightarrow> bool" where
  "isInt_min1 (Finite d) = (1 \<le> d \<and> d < 10 ^ 21)"
| "isInt_min1 x = False"

text \<open>
  The validators of the route: \<^verbatim>\<open>items\<close> is an array of at least one element and
  every quantity passes \<^verbatim>\<open>isInt\<close>. The order type and the payment method are in
  their enums by their types. No validator reads \<^verbatim>\<open>deliveryAddress\<close> or \<^verbatim>\<open>tip\<close>.
\<close>

definition validate_create :: "create_req \<Rightarrow> bool" where
  "validate_create req \<longleftrightarrow>
     cr_items req \<noteq> []
     \<and> list_all (\<lambda>i. isInt_min1 (fl (of_int (ri_quantity i)))) (cr_items req)"

text \<open>
  The inner \<^verbatim>\<open>forEach\<close> over the chosen options: an option found on the menu
  customization adds its price, an option not found adds nothing.
\<close>

definition add_option :: "menu_option list \<Rightarrow> js_number \<Rightarrow> string \<Rightarrow> js_number" where
  "add_option mopts customizationTotal n =
     (case find (\<lambda>opt. mo_name opt = n) mopts of
        Some menuOption \<Rightarrow> js_add customizationTotal (mo_price menuOption)
      | None \<Rightarrow> customizationTotal)"

text \<open>The loop over the requested customizations; one not found on the item is skipped.\<close>

definition add_customization ::
  "menu_customization list \<Rightarrow> js_number \<Rightarrow> req_customization \<Rightarrow> js_number" where
  "add_customization mcs customizationTotal c =
     (case find (\<lambda>m. mc_name m = rc_name c) mcs of
        Some menuCustomization \<Rightarrow>
          foldl (add_option (mc_options menuCustomization)) customizationTotal (rc_options c)
      | None \<Rightarrow> customizationTotal)"


definition customization_total :: "menu_item \<Rightarrow> req_item \<Rightarrow> js_number" where
  "customization_total menuItem orderItem =
     foldl (add_customization (mi_customizations menuItem)) (Finite 0)
       (ri_customizations orderItem)"

text \<open>The size price replaces the base price when the named size is found on the item.\<close>

definition item_price :: "menu_item \<Rightarrow> req_item \<Rightarrow> js_number" where
  "item_price menuItem orderItem =
     (case ri_size orderItem of
        None \<Rightarrow> mi_price menuItem
      | Some n \<Rightarrow>
          if 0 < length (mi_sizes menuItem) then
            (case find (\<lambda>s. ms_name s = n) (mi_sizes menuItem) of
               Some s \<Rightarrow> ms_price s
             | None \<Rightarrow> mi_price menuItem)
          else mi_price menuItem)"

definition make_order_item :: "menu_item \<Rightarrow> req_item \<Rightarrow> order_item" where
  "make_order_item menuItem orderItem =
     \<lparr> oi_menuItem = mi_id menuItem,
       oi_name = mi_name menuItem,
       oi_price = item_price menuItem orderItem,
       oi_quantity = fl (of_int (ri_quantity orderItem)),
       oi_size = ri_size orderItem,
       oi_customizations = ri_customizations orderItem,
       oi_subtotal =
         js_mul (js_add (item_price menuItem orderItem) (customization_total menuItem orderItem))
           (fl (of_int (ri_quantity orderItem))) \<rparr>"

text \<open>
  The loop \<^verbatim>\<open>for (const orderItem of items)\<close> with its two accumulators. It
  returns from the handler at the first item that is not on the menu or not available.
\<close>

fun price_items ::
  "menu_item list \<Rightarrow> req_item list \<Rightarrow> order_item list \<Rightarrow> js_number
     \<Rightarrow> error + (order_item list \<times> js_number)" where
  "price_items menuItems [] orderItems subtotal = Inr (orderItems, subtotal)"
| "price_items menuItems (orderItem # rest) orderItems subtotal =
     (case find (\<lambda>m. mi_id m = ri_menuItem orderItem) menuItems of
        None \<Rightarrow> Inl (ItemUnavailable (ri_menuItem orderItem))
      | Some menuItem \<Rightarrow>
          if \<not> mi_isAvailable menuItem then Inl (ItemUnavailable (ri_menuItem orderItem))
          else price_items menuItems rest
                 (orderItems @ [make_order_item menuItem orderItem])
                 (js_add subtotal (oi_subtotal (make_order_item menuItem orderItem))))"

text \<open>
  The test of the loop on one requested item, \<^verbatim>\<open>!menuItem || !menuItem.isAvailable\<close>,
  negated: the item is on the menu and available.
\<close>

definition item_available :: "menu_item list \<Rightarrow> req_item \<Rightarrow> bool" where
  "item_available menuItems orderItem =
     (case find (\<lambda>m. mi_id m = ri_menuItem orderItem) menuItems of
        None \<Rightarrow> False
      | Some menuItem \<Rightarrow> mi_isAvailable menuItem)"

definition initial_tracking :: "date \<Rightarrow> tracking" where
  "initial_tracking now =
     \<lparr> t_orderPlaced = Some now, t_orderConfirmed = None, t_preparationStarted = None,
       t_readyForPickup = None, t_outForDelivery = None, t_delivered = None,
       t_cancelled = None \<rparr>"

text \<open>
  The pricing block of the handler. The literals \<^verbatim>\<open>0.08\<close> and \<^verbatim>\<open>0.02\<close> are the
  doubles nearest to them, the sums are taken from left to right, and
  \<^verbatim>\<open>req.body.tip || 0\<close> is the tip.
\<close>

definition compute_pricing ::
  "js_number \<Rightarrow> order_type \<Rightarrow> restaurant \<Rightarrow> rat option \<Rightarrow> pricing" where
  "compute_pricing subtotal orderType rest tip_opt =
     (let tax = js_mul subtotal (fl (8 / 100));
          deliveryFee = (if orderType = Delivery then r_deliveryFee rest else Finite 0);
          serviceFee = js_mul subtotal (fl (2 / 100));
          total = js_add (js_add (js_add subtotal tax) deliveryFee) serviceFee;
          tip = number_or_zero tip_opt
      in \<lparr> p_subtotal = subtotal, p_tax = tax, p_deliveryFee = deliveryFee,
           p_serviceFee = serviceFee, p_discount = Finite 0, p_tip = tip,
           p_total = js_add total tip \<rparr>)"

text \<open>
  The handler up to the object \<^verbatim>\<open>orderData\<close>: the validation, the lookups, the
  loop and the pricing. \<open>new_id\<close> is the identifier of the new document, \<open>u\<close> the
  authenticated user, \<open>now\<close> the clock. The result is the document that is handed
  to \<^verbatim>\<open>Order.create\<close>, with the defaults of the schema (status \<^verbatim>\<open>pending\<close>, the
  \<^verbatim>\<open>orderPlaced\<close> timestamp) and without an order number.
\<close>

definition orderData ::
  "restaurant list \<Rightarrow> menu list \<Rightarrow> object_id \<Rightarrow> user \<Rightarrow> date \<Rightarrow> create_req \<Rightarrow> error + order" where
  "orderData restaurants menus new_id u now req =
     (if \<not> validate_create req then Inl ValidationError
      else (case find (\<lambda>r. r_id r = cr_restaurant req) restaurants of
        None \<Rightarrow> Inl NotFound
      | Some rest \<Rightarrow>
          if \<not> r_isActive rest then Inl NotFound
          else (case find (\<lambda>m. m_restaurant m = cr_restaurant req \<and> m_isActive m) menus of
            None \<Rightarrow> Inl NotFound
          | Some mn \<Rightarrow>
              (case price_items (m_items mn) (cr_items req) [] (Finite 0) of
                 Inl e \<Rightarrow> Inl e
               | Inr (orderItems, subtotal) \<Rightarrow>
                   Inr \<lparr> o_id = new_id,
                         o_orderNumber = None,
                         o_customer = u_id u,
                         o_restaurant = cr_restaurant req,
                         o_restaurant_owner = r_owner rest,
                         o_items = orderItems,
                         o_orderType = cr_orderType req,
                         o_status = Pending,
                         o_deliveryAddress =
                           (if cr_orderType req = Delivery then cr_deliveryAddress req else None),
                         o_estimatedDeliveryTime =
                           Some (case cr_scheduledDeliveryTime req of
                                   Some t \<Rightarrow> t
                                 | None \<Rightarrow> now + r_estimatedDeliveryTime rest * 60000),
                         o_actualDeliveryTime = None,
                         o_pricing = compute_pricing subtotal (cr_orderType req) rest (cr_tip req),
                         o_payment =
                           \<lparr> pay_method = cr_payment_method req, pay_status = Pay_pending,
                             pay_transactionId = None, pay_stripePaymentIntentId = None,
                             pay_paidAt = None, pay_refundedAt = None,
                             pay_refundAmount = None \<rparr>,
                         o_deliveryDriver = None,
                         o_tracking = initial_tracking now,
                         o_customerPhone = Some (u_phone u),
                         o_driverPhone = None,
                         o_feedback = None,
                         o_repeatOrder = False,
                         o_originalOrder = None \<rparr>))))"

text \<open>
  The handler: \<^verbatim>\<open>await Order.create(orderData)\<close>, whose rejection reaches the
  \<^verbatim>\<open>catch\<close> block. What the handler does after a successful create (the counters
  of the restaurant, the order history of the user) does not write orders and is not
  part of the model.
\<close>

definition createOrder ::
  "restaurant list \<Rightarrow> menu list \<Rightarrow> order list \<Rightarrow> object_id \<Rightarrow> user \<Rightarrow> date \<Rightarrow> create_req
     \<Rightarrow> (error + order) \<times> order list" where
  "createOrder restaurants menus orders new_id u now req =
     (case orderData restaurants menus new_id u now req of
        Inl e \<Rightarrow> (Inl e, orders)
      | Inr doc \<Rightarrow>
          (case Order_create orders now doc of
             None \<Rightarrow> (Inl ServerError, orders)
           | Some (ord, orders') \<Rightarrow> (Inr ord, orders')))"

text \<open>
  \<^verbatim>\<open>orderSchema.methods.calculateTotal\<close>: the subtotal is the sum of the item
  subtotals, the tax is recomputed, the other fees are read from the document, and the
  total is not let below 0. No route calls it.
\<close>

definition calculateTotal :: "order \<Rightarrow> order" where
  "calculateTotal ord =
     (let subtotal = foldl (\<lambda>s item. js_add s (oi_subtotal item)) (Finite 0) (o_items ord);
          p = o_pricing ord;
          tax = js_mul subtotal (fl (8 / 100));
          total = js_add (js_add (js_add (js_add subtotal tax) (p_deliveryFee p))
                    (p_serviceFee p)) (p_tip p);
          total' = js_add total (js_neg (p_discount p))
      in ord\<lparr> o_pricing :=
               p\<lparr> p_subtotal := subtotal, p_tax := tax, p_total := js_max total' (Finite 0) \<rparr> \<rparr>)"

subsection \<open>POST /api/orders/:id/repeat\<close>

record repeat_req =
  rp_deliveryAddress :: "string option"
  rp_paymentMethod :: "payment_method option"

text \<open>
  The new document copies the items and the pricing of the original order and, like
  \<^verbatim>\<open>orderData\<close>, has no order number.
\<close>

definition repeatOrder ::
  "restaurant list \<Rightarrow> order list \<Rightarrow> object_id \<Rightarrow> user \<Rightarrow> date \<Rightarrow> object_id \<Rightarrow> repeat_req
     \<Rightarrow> (error + order) \<times> order list" where
  "repeatOrder restaurants orders new_id u now oid req =
     (case findById orders oid of
        None \<Rightarrow> (Inl NotFound, orders)
      | Some originalOrder \<Rightarrow>
          if o_customer originalOrder \<noteq> u_id u then (Inl NotAuthorized, orders)
          else (case find (\<lambda>r. r_id r = o_restaurant originalOrder) restaurants of
            None \<Rightarrow> (Inl RestaurantUnavailable, orders)
          | Some rest \<Rightarrow>
              if \<not> r_isActive rest then (Inl RestaurantUnavailable, orders)
              else (case Order_create orders now
                      \<lparr> o_id = new_id,
                        o_orderNumber = None,
                        o_customer = u_id u,
                        o_restaurant = o_restaurant originalOrder,
                        o_restaurant_owner = r_owner rest,
                        o_items = o_items originalOrder,
                        o_orderType = o_orderType originalOrder,
                        o_status = Pending,
                        o_deliveryAddress =
                          (case rp_deliveryAddress req of
                             Some a \<Rightarrow> Some a
                           | None \<Rightarrow> o_deliveryAddress originalOrder),
                        o_estimatedDeliveryTime = None,
                        o_actualDeliveryTime = None,
                        o_pricing = o_pricing originalOrder,
                        o_payment =
                          \<lparr> pay_method =
                              (case rp_paymentMethod req of
                                 Some m \<Rightarrow> m
                               | None \<Rightarrow> pay_method (o_payment originalOrder)),
                            pay_status = Pay_pending,
                            pay_transactionId = None, pay_stripePaymentIntentId = None,
                            pay_paidAt = None, pay_refundedAt = None,
                            pay_refundAmount = None \<rparr>,
                        o_deliveryDriver = None,
                        o_tracking = initial_tracking now,
                        o_customerPhone = None,
                        o_driverPhone = None,
                        o_feedback = None,
                        o_repeatOrder = True,
                        o_originalOrder = Some (o_id originalOrder) \<rparr> of
                 None \<Rightarrow> (Inl ServerError, orders)
               | Some (newOrder, orders') \<Rightarrow> (Inr newOrder, orders'))))"

section \<open>Status transitions\<close>

record additionalData =
  ad_estimatedTime :: "nat option"
  ad_estimatedArrival :: "date option"
  ad_deliveredBy :: "string option"
  ad_signature :: "string option"
  ad_photo :: "string option"
  ad_reason :: "string option"
  ad_cancelledBy :: "string option"

text \<open>The default argument \<^verbatim>\<open>additionalData = {}\<close>.\<close>

definition no_additionalData :: additionalData where
  "no_additionalData =
     \<lparr> ad_estimatedTime = None, ad_estimatedArrival = None, ad_deliveredBy = None,
       ad_signature = None, ad_photo = None, ad_reason = None, ad_cancelledBy = None \<rparr>"

text \<open>\<^verbatim>\<open>x || d\<close> on an optional number: an absent value and 0 both give \<open>d\<close>.\<close>

definition or_default :: "nat option \<Rightarrow> nat \<Rightarrow> nat" where
  "or_default x d = (case x of None \<Rightarrow> d | Some v \<Rightarrow> if v = 0 then d else v)"

text \<open>
  The assignments of \<^verbatim>\<open>orderSchema.methods.updateStatus\<close> before it saves: the
  status, then the \<^verbatim>\<open>switch\<close> over the new status. The switch has no case for
  \<^verbatim>\<open>pending\<close> and none for \<^verbatim>\<open>refunded\<close>.
\<close>

fun status_effects :: "date \<Rightarrow> order_status \<Rightarrow> additionalData \<Rightarrow> order \<Rightarrow> order" where
  "status_effects now Confirmed ad ord =
     ord\<lparr> o_status := Confirmed,
          o_tracking := (o_tracking ord)
            \<lparr> t_orderConfirmed := Some (now, or_default (ad_estimatedTime ad) 30) \<rparr>,
          o_estimatedDeliveryTime :=
            (case ad_estimatedTime ad of
               None \<Rightarrow> o_estimatedDeliveryTime ord
             | Some t \<Rightarrow> if t = 0 then o_estimatedDeliveryTime ord else Some (now + t * 60000)) \<rparr>"
| "status_effects now Preparing ad ord =
     ord\<lparr> o_status := Preparing,
          o_tracking := (o_tracking ord)
            \<lparr> t_preparationStarted := Some (now, or_default (ad_estimatedTime ad) 20) \<rparr> \<rparr>"
| "status_effects now Ready_for_pickup ad ord =
     ord\<lparr> o_status := Ready_for_pickup,
          o_tracking := (o_tracking ord)\<lparr> t_readyForPickup := Some now \<rparr> \<rparr>"
| "status_effects now Out_for_delivery ad ord =
     ord\<lparr> o_status := Out_for_delivery,
          o_tracking := (o_tracking ord)
            \<lparr> t_outForDelivery :=
                Some (now, case ad_estimatedArrival ad of
                             Some a \<Rightarrow> a
                           | None \<Rightarrow> now + 20 * 60000) \<rparr> \<rparr>"
| "status_effects now Delivered ad ord =
     ord\<lparr> o_status := Delivered,
          o_tracking := (o_tracking ord)
            \<lparr> t_delivered :=
                Some \<lparr> d_timestamp = now, d_deliveredBy = ad_deliveredBy ad,
                       d_signature = ad_signature ad, d_photo = ad_photo ad \<rparr> \<rparr>,
          o_actualDeliveryTime := Some now \<rparr>"
| "status_effects now Cancelled ad ord =
     ord\<lparr> o_status := Cancelled,
          o_tracking := (o_tracking ord)
            \<lparr> t_cancelled :=
                Some \<lparr> c_timestamp = now, c_reason = ad_reason ad,
                       c_cancelledBy = ad_cancelledBy ad \<rparr> \<rparr> \<rparr>"
| "status_effects now Pending ad ord = ord\<lparr> o_status := Pending \<rparr>"
| "status_effects now Refunded ad ord = ord\<lparr> o_status := Refunded \<rparr>"

text \<open>
  \<^verbatim>\<open>updateStatus\<close>: the assignments, then \<^verbatim>\<open>return this.save()\<close>. The result is the
  document and the collection after the write, or \<open>None\<close> when the save rejects.
\<close>

definition updateStatus ::
  "order list \<Rightarrow> date \<Rightarrow> order_status \<Rightarrow> additionalData \<Rightarrow> order \<Rightarrow> (order \<times> order list) option" where
  "updateStatus orders now newStatus ad ord =
     (let ord' = status_effects now newStatus ad ord
      in case save orders ord' of None \<Rightarrow> None | Some orders' \<Rightarrow> Some (ord', orders'))"

subsection \<open>PUT /api/orders/:id/status\<close>

record status_req =
  sr_status :: order_status
  sr_estimatedTime :: "nat option"
  sr_estimatedArrival :: "date option"
  sr_deliveredBy :: "string option"
  sr_signature :: "string option"
  sr_photo :: "string option"
  sr_reason :: "string option"

text \<open>The validator of the body: the status is one of seven; \<^verbatim>\<open>refunded\<close> is not.\<close>

definition status_allowed :: "order_status list" where
  "status_allowed =
     [Pending, Confirmed, Preparing, Ready_for_pickup, Out_for_delivery, Delivered, Cancelled]"

text \<open>The authorization block: \<open>isAuthorized\<close> starts false and is set by target status.\<close>

definition isAuthorized :: "order \<Rightarrow> user \<Rightarrow> order_status \<Rightarrow> bool" where
  "isAuthorized ord u status =
     (if status \<in> set [Confirmed, Preparing, Ready_for_pickup] then
        o_restaurant_owner ord = u_id u \<or> u_role u = Admin
      else if status \<in> set [Out_for_delivery, Delivered] then
        (case o_deliveryDriver ord of None \<Rightarrow> False | Some d \<Rightarrow> d = u_id u) \<or> u_role u = Admin
      else if status = Cancelled then
        o_customer ord = u_id u \<or> o_restaurant_owner ord = u_id u \<or> u_role u = Admin
      else False)"

text \<open>
  The object \<^verbatim>\<open>validTransitions\<close>. It has no key \<^verbatim>\<open>refunded\<close>: the lookup gives
  \<^verbatim>\<open>undefined\<close>, here \<open>None\<close>.
\<close>

fun validTransitions :: "order_status \<Rightarrow> order_status list option" where
  "validTransitions Pending = Some [Confirmed, Cancelled]"
| "validTransitions Confirmed = Some [Preparing, Cancelled]"
| "validTransitions Preparing = Some [Ready_for_pickup, Cancelled]"
| "validTransitions Ready_for_pickup = Some [Out_for_delivery, Delivered, Cancelled]"
| "validTransitions Out_for_delivery = Some [Delivered, Cancelled]"
| "validTransitions Delivered = Some []"
| "validTransitions Cancelled = Some []"
| "validTransitions Refunded = None"

definition status_additionalData :: "user \<Rightarrow> status_req \<Rightarrow> additionalData" where
  "status_additionalData u req =
     \<lparr> ad_estimatedTime = sr_estimatedTime req,
       ad_estimatedArrival = sr_estimatedArrival req,
       ad_deliveredBy = sr_deliveredBy req,
       ad_signature = sr_signature req,
       ad_photo = sr_photo req,
       ad_reason = sr_reason req,
       ad_cancelledBy = Some (role_string (u_role u)) \<rparr>"

text \<open>
  The handler. \<^verbatim>\<open>validTransitions[order.status].includes(status)\<close> throws a
  TypeError when the lookup is undefined, and a rejected save throws too: both reach
  the \<^verbatim>\<open>catch\<close> block, which answers 500.
\<close>

definition updateOrderStatus ::
  "order list \<Rightarrow> user \<Rightarrow> date \<Rightarrow> object_id \<Rightarrow> status_req \<Rightarrow> (error + order) \<times> order list" where
  "updateOrderStatus orders u now oid req =
     (if sr_status req \<notin> set status_allowed then (Inl ValidationError, orders)
      else (case findById orders oid of
        None \<Rightarrow> (Inl NotFound, orders)
      | Some ord \<Rightarrow>
          if \<not> isAuthorized ord u (sr_status req) then (Inl NotAuthorized, orders)
          else (case validTransitions (o_status ord) of
            None \<Rightarrow> (Inl ServerError, orders)
          | Some targets \<Rightarrow>
              if sr_status req \<notin> set targets then
                (Inl (IllegalTransition (o_status ord) (sr_status req)), orders)
              else (case updateStatus orders now (sr_status req) (status_additionalData u req) ord of
                None \<Rightarrow> (Inl ServerError, orders)
              | Some (ord', orders') \<Rightarrow> (Inr ord', orders')))))"

subsection \<open>PUT /api/orders/:id/cancel\<close>

text \<open>The virtual \<^verbatim>\<open>canBeCancelled\<close>.\<close>

definition canBeCancelled :: "order \<Rightarrow> bool" where
  "canBeCancelled ord \<longleftrightarrow> o_status ord \<in> set [Pending, Confirmed]"

text \<open>\<^verbatim>\<open>req.body.reason || 'No reason provided'\<close>: absent and empty both give the default.\<close>

definition reason_or :: "string option \<Rightarrow> string \<Rightarrow> string" where
  "reason_or r d = (case r of None \<Rightarrow> d | Some s \<Rightarrow> if s = [] then d else s)"

definition cancelOrder ::
  "order list \<Rightarrow> user \<Rightarrow> date \<Rightarrow> object_id \<Rightarrow> string option \<Rightarrow> (error + order) \<times> order list" where
  "cancelOrder orders u now oid reason =
     (case findById orders oid of
        None \<Rightarrow> (Inl NotFound, orders)
      | Some ord \<Rightarrow>
          if \<not> (o_customer ord = u_id u \<or> o_restaurant_owner ord = u_id u \<or> u_role u = Admin)
          then (Inl NotAuthorized, orders)
          else if \<not> canBeCancelled ord then (Inl NotCancellable, orders)
          else (case updateStatus orders now Cancelled
                      (no_additionalData
                         \<lparr> ad_reason := Some (reason_or reason ''No reason provided''),
                           ad_cancelledBy := Some (role_string (u_role u)) \<rparr>) ord of
            None \<Rightarrow> (Inl ServerError, orders)
          | Some (ord', orders') \<Rightarrow> (Inr ord', orders')))"

subsection \<open>PUT /api/orders/:id/assign-driver\<close>

text \<open>
  The middleware \<^verbatim>\<open>authorize('admin', 'restaurant_owner')\<close> comes first. The driver
  is looked up in the users collection. The handler writes the driver and the phone
  of the driver and saves.
\<close>

definition assignDriver ::
  "user list \<Rightarrow> order list \<Rightarrow> user \<Rightarrow> object_id \<Rightarrow> object_id \<Rightarrow> (error + order) \<times> order list" where
  "assignDriver users orders u oid driverId =
     (if u_role u \<notin> set [Admin, Restaurant_owner] then (Inl NotAuthorized, orders)
      else (case findById orders oid of
        None \<Rightarrow> (Inl NotFound, orders)
      | Some ord \<Rightarrow>
          if u_role u = Restaurant_owner \<and> o_restaurant_owner ord \<noteq> u_id u
          then (Inl NotAuthorized, orders)
          else (case find (\<lambda>d. u_id d = driverId) users of
            None \<Rightarrow> (Inl InvalidDriver, orders)
          | Some driver \<Rightarrow>
              if u_role driver \<noteq> Delivery_driver \<or> \<not> u_isActive driver
              then (Inl InvalidDriver, orders)
              else (case save orders
                           (ord\<lparr> o_deliveryDriver := Some driverId,
                                 o_driverPhone := Some (u_phone driver) \<rparr>) of
                 None \<Rightarrow> (Inl ServerError, orders)
               | Some orders' \<Rightarrow>
                   (Inr (ord\<lparr> o_deliveryDriver := Some driverId,
                              o_driverPhone := Some (u_phone driver) \<rparr>), orders')))))"

subsection \<open>POST /api/reviews: the feedback on the order\<close>

record review_req =
  rv_restaurant :: object_id
  rv_order :: object_id
  rv_overall :: int
  rv_comment :: string
  rv_title :: "string option"
  rv_food :: "int option"
  rv_delivery :: "int option"
  rv_driverRating :: "int option"

text \<open>
  The validators: the overall rating is between 1 and 5, the comment has 10 to 1000
  characters, a title at most 100.
\<close>

definition validate_review :: "review_req \<Rightarrow> bool" where
  "validate_review req \<longleftrightarrow>
     1 \<le> rv_overall req \<and> rv_overall req \<le> 5
     \<and> 10 \<le> length (rv_comment req) \<and> length (rv_comment req) \<le> 1000
     \<and> (case rv_title req of None \<Rightarrow> True | Some t \<Rightarrow> length t \<le> 100)"

text \<open>
  \<^verbatim>\<open>orderSchema.methods.addFeedback\<close>: the feedback with its time, then
  \<^verbatim>\<open>return this.save()\<close>.
\<close>

definition addFeedback ::
  "order list \<Rightarrow> date \<Rightarrow> review_req \<Rightarrow> order \<Rightarrow> (order \<times> order list) option" where
  "addFeedback orders now req ord =
     (let ord' = ord\<lparr> o_feedback :=
                   Some \<lparr> f_rating = rv_overall req, f_comment = rv_comment req,
                          f_foodQuality = rv_food req, f_deliverySpeed = rv_delivery req,
                          f_driverRating = rv_driverRating req, f_submittedAt = now \<rparr> \<rparr>
      in case save orders ord' of None \<Rightarrow> None | Some orders' \<Rightarrow> Some (ord', orders'))"

text \<open>
  The handler, as far as the order is concerned. The reviews collection is outside
  the model: \<open>existingReview\<close> says whether \<^verbatim>\<open>Review.findOne\<close> finds a review of the
  order, \<open>reviewStored\<close> whether \<^verbatim>\<open>Review.create\<close> and the update of the rating of
  the restaurant went through. The success value is the order as saved.
\<close>

definition createReview ::
  "bool \<Rightarrow> bool \<Rightarrow> order list \<Rightarrow> user \<Rightarrow> date \<Rightarrow> review_req \<Rightarrow> (error + order) \<times> order list" where
  "createReview existingReview reviewStored orders u now req =
     (if \<not> validate_review req then (Inl ValidationError, orders)
      else (case findById orders (rv_order req) of
        None \<Rightarrow> (Inl NotFound, orders)
      | Some ord \<Rightarrow>
          if o_customer ord \<noteq> u_id u then (Inl NotAuthorized, orders)
          else if o_status ord \<noteq> Delivered then (Inl NotDelivered, orders)
          else if existingReview then (Inl AlreadyExists, orders)
          else if o_restaurant ord \<noteq> rv_restaurant req then (Inl RestaurantMismatch, orders)
          else if \<not> reviewStored then (Inl ServerError, orders)
          else (case addFeedback orders now req ord of
            None \<Rightarrow> (Inl ServerError, orders)
          | Some (ord', orders') \<Rightarrow> (Inr ord', orders'))))"

section \<open>Payment reconciliation\<close>

text \<open>
  The payment gateway is outside the program: each call of the Stripe client is a
  parameter of the handler that makes it, a function from the arguments of the call to
  its outcome. \<open>Threw\<close> is a rejected promise (a gateway or network failure).
\<close>

datatype 'a outcome = Threw | Returned 'a

datatype intent_status = Succeeded | Requires_action | Payment_failed | Other_intent_status

record intent =
  in_id :: string
  in_client_secret :: string
  in_amount :: int
  in_status :: intent_status

text \<open>The amount in cents, \<^verbatim>\<open>Math.round(x * 100)\<close>.\<close>

definition cents :: "js_number \<Rightarrow> js_number" where
  "cents x = js_round (js_mul x (Finite 100))"

subsection \<open>POST /api/payments/create-intent\<close>

text \<open>
  \<open>stripe_create\<close> is \<^verbatim>\<open>stripe.paymentIntents.create\<close>, given the amount in cents and
  the optional payment method. Every exception of the handler is answered 500
  \<^verbatim>\<open>Payment processing error\<close>.
\<close>

definition createPaymentIntent ::
  "(js_number \<Rightarrow> string option \<Rightarrow> intent outcome) \<Rightarrow> order list \<Rightarrow> user \<Rightarrow> object_id
     \<Rightarrow> string option \<Rightarrow> (error + intent) \<times> order list" where
  "createPaymentIntent stripe_create orders u orderId paymentMethodId =
     (case findById orders orderId of
        None \<Rightarrow> (Inl NotFound, orders)
      | Some ord \<Rightarrow>
          if o_customer ord \<noteq> u_id u then (Inl NotAuthorized, orders)
          else if o_status ord \<noteq> Pending then (Inl OrderNotPayable, orders)
          else if pay_status (o_payment ord) = Pay_completed then (Inl OrderNotPayable, orders)
          else (case stripe_create (cents (p_total (o_pricing ord))) paymentMethodId of
            Threw \<Rightarrow> (Inl PaymentGatewayError, orders)
          | Returned paymentIntent \<Rightarrow>
              (case save orders
                      (ord\<lparr> o_payment := (o_payment ord)
                              \<lparr> pay_stripePaymentIntentId := Some (in_id paymentIntent),
                                pay_status := Pay_processing \<rparr> \<rparr>) of
                 None \<Rightarrow> (Inl PaymentGatewayError, orders)
               | Some orders' \<Rightarrow> (Inr paymentIntent, orders'))))"

subsection \<open>POST /api/payments/confirm\<close>

text \<open>
  \<open>stripe_retrieve\<close> is \<^verbatim>\<open>stripe.paymentIntents.retrieve\<close>; the handler also
  provides for a null result. On \<^verbatim>\<open>succeeded\<close> the handler calls
  \<^verbatim>\<open>updateStatus('confirmed')\<close> whatever the status of the order is, and every
  branch ends in \<^verbatim>\<open>order.save()\<close>. The success value is the order as saved.
\<close>

definition confirmPayment ::
  "(string \<Rightarrow> intent option outcome) \<Rightarrow> order list \<Rightarrow> user \<Rightarrow> date \<Rightarrow> string
     \<Rightarrow> (error + order) \<times> order list" where
  "confirmPayment stripe_retrieve orders u now paymentIntentId =
     (if paymentIntentId = [] then (Inl ValidationError, orders)
      else (case stripe_retrieve paymentIntentId of
        Threw \<Rightarrow> (Inl PaymentGatewayError, orders)
      | Returned None \<Rightarrow> (Inl NotFound, orders)
      | Returned (Some paymentIntent) \<Rightarrow>
          (case findByIntent orders paymentIntentId of
             None \<Rightarrow> (Inl NotFound, orders)
           | Some ord \<Rightarrow>
               if o_customer ord \<noteq> u_id u then (Inl NotAuthorized, orders)
               else if in_status paymentIntent = Succeeded then
                 (case updateStatus orders now Confirmed no_additionalData
                         (ord\<lparr> o_payment := (o_payment ord)
                                 \<lparr> pay_status := Pay_completed,
                                   pay_paidAt := Some now,
                                   pay_transactionId := Some (in_id paymentIntent) \<rparr> \<rparr>) of
                    None \<Rightarrow> (Inl PaymentGatewayError, orders)
                  | Some (ord', orders') \<Rightarrow>
                      (case save orders' ord' of
                         None \<Rightarrow> (Inl PaymentGatewayError, orders')
                       | Some orders'' \<Rightarrow> (Inr ord', orders'')))
               else
                 (let ord' =
                        (if in_status paymentIntent = Requires_action then
                           ord\<lparr> o_payment := (o_payment ord)\<lparr> pay_status := Pay_processing \<rparr> \<rparr>
                         else if in_status paymentIntent = Payment_failed then
                           ord\<lparr> o_payment := (o_payment ord)\<lparr> pay_status := Pay_failed \<rparr> \<rparr>
                         else ord)
                  in case save orders ord' of
                       None \<Rightarrow> (Inl PaymentGatewayError, orders)
                     | Some orders' \<Rightarrow> (Inr ord', orders')))))"

subsection \<open>POST /api/payments/refund\<close>

record refund_req =
  rf_orderId :: object_id
  rf_amount :: "rat option"
  rf_reason :: "string option"

record refund =
  re_id :: string
  re_amount :: js_number

text \<open>The validator \<^verbatim>\<open>isFloat({ min: 0 })\<close>: a finite number of at least 0.\<close>

fun isFloat_min0 :: "js_number \<Rightarrow> bool" where
  "isFloat_min0 (Finite d) = (0 \<le> d)"
| "isFloat_min0 x = False"

text \<open>
  The validators: an amount, when given, passes \<^verbatim>\<open>isFloat\<close>; a reason, read after
  the sanitizer \<^verbatim>\<open>trim\<close>, has at most 500 characters.
\<close>

definition validate_refund :: "refund_req \<Rightarrow> bool" where
  "validate_refund req \<longleftrightarrow>
     (case rf_amount req of None \<Rightarrow> True | Some a \<Rightarrow> isFloat_min0 (fl a))
     \<and> (case rf_reason req of None \<Rightarrow> True | Some r \<Rightarrow> length r \<le> 500)"

text \<open>
  \<^verbatim>\<open>amount ? Math.round(amount * 100) : Math.round(order.pricing.total * 100)\<close>: an
  absent amount and the amount 0 both take the second branch.
\<close>

definition refund_cents :: "rat option \<Rightarrow> order \<Rightarrow> js_number" where
  "refund_cents amount ord =
     (case amount of
        None \<Rightarrow> cents (p_total (o_pricing ord))
      | Some a \<Rightarrow> if js_truthy (fl a) then cents (fl a) else cents (p_total (o_pricing ord)))"

text \<open>
  \<open>stripe_refund\<close> is \<^verbatim>\<open>stripe.refunds.create\<close>, given the intent and the amount in
  cents. The intent check \<^verbatim>\<open>!order.payment.stripePaymentIntentId\<close> also refuses the
  empty string. The route hands the reason and the role of the actor to
  \<^verbatim>\<open>updateStatus('refunded', ...)\<close>. The success value is the order as saved.
\<close>

definition refundOrder ::
  "(string \<Rightarrow> js_number \<Rightarrow> refund outcome) \<Rightarrow> order list \<Rightarrow> user \<Rightarrow> date \<Rightarrow> refund_req
     \<Rightarrow> (error + order) \<times> order list" where
  "refundOrder stripe_refund orders u now req =
     (if \<not> validate_refund req then (Inl ValidationError, orders)
      else (case findById orders (rf_orderId req) of
        None \<Rightarrow> (Inl NotFound, orders)
      | Some ord \<Rightarrow>
          if \<not> (o_customer ord = u_id u \<or> o_restaurant_owner ord = u_id u \<or> u_role u = Admin)
          then (Inl NotAuthorized, orders)
          else if pay_status (o_payment ord) \<noteq> Pay_completed then (Inl NotRefundable, orders)
          else (case pay_stripePaymentIntentId (o_payment ord) of
            None \<Rightarrow> (Inl NotRefundable, orders)
          | Some pid \<Rightarrow>
              if pid = [] then (Inl NotRefundable, orders)
              else (case stripe_refund pid (refund_cents (rf_amount req) ord) of
                Threw \<Rightarrow> (Inl PaymentGatewayError, orders)
              | Returned r \<Rightarrow>
                  (case updateStatus orders now Refunded
                          (no_additionalData
                             \<lparr> ad_reason := Some (reason_or (rf_reason req) ''Payment refunded''),
                               ad_cancelledBy := Some (role_string (u_role u)) \<rparr>)
                          (ord\<lparr> o_payment := (o_payment ord)
                                  \<lparr> pay_status := Pay_refunded,
                                    pay_refundedAt := Some now,
                                    pay_refundAmount :=
                                      Some (js_div_100 (refund_cents (rf_amount req) ord)) \<rparr> \<rparr>) of
                     None \<Rightarrow> (Inl PaymentGatewayError, orders)
                   | Some (ord', orders') \<Rightarrow> (Inr ord', orders'))))))"

subsection \<open>POST /api/payments/webhook\<close>

datatype event =
  Payment_intent_succeeded string
  | Payment_intent_payment_failed string
  | Other_event

text \<open>
  \<open>constructed\<close> is the outcome of \<^verbatim>\<open>stripe.webhooks.constructEvent\<close>, which throws
  when the signature does not verify. An event for which no order is found, and an
  event of another type, are acknowledged. An exception while the event is handled is
  answered 500 \<^verbatim>\<open>Webhook handler failed\<close>, here \<open>ServerError\<close>.
\<close>

definition handleWebhook ::
  "event outcome \<Rightarrow> order list \<Rightarrow> date \<Rightarrow> (error + unit) \<times> order list" where
  "handleWebhook constructed orders now =
     (case constructed of
        Threw \<Rightarrow> (Inl InvalidSignature, orders)
      | Returned (Payment_intent_succeeded pid) \<Rightarrow>
          (case findByIntent orders pid of
             None \<Rightarrow> (Inr (), orders)
           | Some ord \<Rightarrow>
               (let ord1 = ord\<lparr> o_payment := (o_payment ord)
                                  \<lparr> pay_status := Pay_completed,
                                    pay_paidAt := Some now,
                                    pay_transactionId := Some pid \<rparr> \<rparr>
                in if o_status ord1 = Pending then
                     (case updateStatus orders now Confirmed no_additionalData ord1 of
                        None \<Rightarrow> (Inl ServerError, orders)
                      | Some (ord', orders') \<Rightarrow> (Inr (), orders'))
                   else
                     (case save orders ord1 of
                        None \<Rightarrow> (Inl ServerError, orders)
                      | Some orders' \<Rightarrow> (Inr (), orders'))))
      | Returned (Payment_intent_payment_failed pid) \<Rightarrow>
          (case findByIntent orders pid of
             None \<Rightarrow> (Inr (), orders)
           | Some ord \<Rightarrow>
               (case save orders (ord\<lparr> o_payment := (o_payment ord)\<lparr> pay_status := Pay_failed \<rparr> \<rparr>) of
                  None \<Rightarrow> (Inl ServerError, orders)
                | Some orders' \<Rightarrow> (Inr (), orders')))
      | Returned Other_event \<Rightarrow> (Inr (), orders))"

section \<open>Example data\<close>

text \<open>
  A restaurant with a delivery fee of 3, its menu (a burger at 10 with one size and
  one customization, a soup that is not available), four users, and stored orders in a
  given state. Every number is a double. \<open>ex_order\<close> carries the pricing that five
  burgers, delivered, with a tip of 5 give; \<open>ex_salad_order\<close> is a delivered and paid
  pickup order of one item at 25; \<open>ex_paid_order\<close> is \<open>ex_order\<close> after a payment
  at time 1100 and a confirmation at time 1200 with an estimate of 45 minutes.
\<close>

definition ex_burger :: menu_item where
  "ex_burger =
     \<lparr> mi_id = 1, mi_name = ''Burger'', mi_price = Finite 10, mi_isAvailable = True,
       mi_customizations =
         [\<lparr> mc_name = ''Extras'',
            mc_options = [\<lparr> mo_name = ''Cheese'', mo_price = Finite 1 \<rparr>] \<rparr>],
       mi_sizes = [\<lparr> ms_name = ''Large'', ms_price = Finite 12 \<rparr>] \<rparr>"

definition ex_soup :: menu_item where
  "ex_soup =
     \<lparr> mi_id = 2, mi_name = ''Soup'', mi_price = Finite 4, mi_isAvailable = False,
       mi_customizations = [], mi_sizes = [] \<rparr>"

definition ex_menu :: menu where
  "ex_menu = \<lparr> m_restaurant = 7, m_isActive = True, m_items = [ex_burger, ex_soup] \<rparr>"

definition ex_restaurant :: restaurant where
  "ex_restaurant =
     \<lparr> r_id = 7, r_owner = 20, r_isActive = True, r_deliveryFee = Finite 3,
       r_estimatedDeliveryTime = 30 \<rparr>"

definition ex_customer :: user where
  "ex_customer = \<lparr> u_id = 10, u_role = Customer, u_isActive = True, u_phone = ''555-0110'' \<rparr>"

definition ex_owner :: user where
  "ex_owner = \<lparr> u_id = 20, u_role = Restaurant_owner, u_isActive = True, u_phone = ''555-0120'' \<rparr>"

definition ex_admin :: user where
  "ex_admin = \<lparr> u_id = 30, u_role = Admin, u_isActive = True, u_phone = ''555-0130'' \<rparr>"

definition ex_driver :: user where
  "ex_driver = \<lparr> u_id = 40, u_role = Delivery_driver, u_isActive = True, u_phone = ''555-0140'' \<rparr>"

definition ex_line :: "int \<Rightarrow> req_item" where
  "ex_line q = \<lparr> ri_menuItem = 1, ri_quantity = q, ri_size = None, ri_customizations = [] \<rparr>"

definition ex_create ::
  "req_item list \<Rightarrow> order_type \<Rightarrow> string option \<Rightarrow> rat option \<Rightarrow> create_req" where
  "ex_create items ty addr tip =
     \<lparr> cr_restaurant = 7, cr_items = items, cr_orderType = ty, cr_deliveryAddress = addr,
       cr_scheduledDeliveryTime = None, cr_payment_method = Card, cr_tip = tip \<rparr>"

text \<open>Five burgers for pickup with a tip of -100.\<close>

definition ex_negative_tip_req :: create_req where
  "ex_negative_tip_req = ex_create [ex_line 5] Pickup None (Some (- 100))"

text \<open>
  One burger in the size XL, which the burger does not have, with the option Gold of
  its customization Extras, which has no such option, and with a customization Sauce,
  which the burger does not have.
\<close>

definition ex_unknown_selection_req :: create_req where
  "ex_unknown_selection_req =
     ex_create [(ex_line 1)\<lparr> ri_size := Some ''XL'',
                  ri_customizations := [\<lparr> rc_name = ''Extras'', rc_options = [''Gold''] \<rparr>,
                                        \<lparr> rc_name = ''Sauce'', rc_options = [''Cheese''] \<rparr>] \<rparr>]
       Pickup None None"

definition ex_order :: "order_status \<Rightarrow> payment_status \<Rightarrow> order" where
  "ex_order st pst =
     \<lparr> o_id = 100, o_orderNumber = Some ''ORD10000001'',
       o_customer = 10, o_restaurant = 7, o_restaurant_owner = 20,
       o_items = [\<lparr> oi_menuItem = 1, oi_name = ''Burger'', oi_price = Finite 10,
                    oi_quantity = Finite 5, oi_size = None, oi_customizations = [],
                    oi_subtotal = Finite 50 \<rparr>],
       o_orderType = Delivery, o_status = st, o_deliveryAddress = Some ''1 Main St'',
       o_estimatedDeliveryTime = Some 1801000, o_actualDeliveryTime = None,
       o_pricing = \<lparr> p_subtotal = Finite 50, p_tax = Finite 4, p_deliveryFee = Finite 3,
                     p_serviceFee = Finite 1, p_discount = Finite 0, p_tip = Finite 5,
                     p_total = Finite 63 \<rparr>,
       o_payment = \<lparr> pay_method = Card, pay_status = pst, pay_transactionId = None,
                     pay_stripePaymentIntentId = Some ''pi_1'', pay_paidAt = None,
                     pay_refundedAt = None, pay_refundAmount = None \<rparr>,
       o_deliveryDriver = Some 40,
       o_tracking = initial_tracking 1000,
       o_customerPhone = Some ''555-0110'', o_driverPhone = None, o_feedback = None,
       o_repeatOrder = False, o_originalOrder = None \<rparr>"

definition ex_paid_order :: order where
  "ex_paid_order =
     (ex_order Confirmed Pay_completed)
       \<lparr> o_payment := (o_payment (ex_order Confirmed Pay_completed))
            \<lparr> pay_paidAt := Some 1100, pay_transactionId := Some ''pi_1'' \<rparr>,
         o_tracking := (initial_tracking 1000)\<lparr> t_orderConfirmed := Some (1200, 45) \<rparr> \<rparr>"

definition ex_salad_order :: order where
  "ex_salad_order =
     \<lparr> o_id = 101, o_orderNumber = Some ''ORD10000002'',
       o_customer = 10, o_restaurant = 7, o_restaurant_owner = 20,
       o_items = [\<lparr> oi_menuItem = 3, oi_name = ''Salad'', oi_price = Finite 25,
                    oi_quantity = Finite 1, oi_size = None, oi_customizations = [],
                    oi_subtotal = Finite 25 \<rparr>],
       o_orderType = Pickup, o_status = Delivered, o_deliveryAddress = None,
       o_estimatedDeliveryTime = Some 1801000, o_actualDeliveryTime = Some 1500000,
       o_pricing = \<lparr> p_subtotal = Finite 25, p_tax = Finite 2, p_deliveryFee = Finite 0,
                     p_serviceFee = Finite (1 / 2), p_discount = Finite 0, p_tip = Finite 0,
                     p_total = Finite (55 / 2) \<rparr>,
       o_payment = \<lparr> pay_method = Card, pay_status = Pay_completed,
                     pay_transactionId = Some ''pi_2'', pay_stripePaymentIntentId = Some ''pi_2'',
                     pay_paidAt = Some 1100, pay_refundedAt = None, pay_refundAmount = None \<rparr>,
       o_deliveryDriver = Some 40,
       o_tracking = initial_tracking 1000,
       o_customerPhone = Some ''555-0110'', o_driverPhone = None, o_feedback = None,
       o_repeatOrder = False, o_originalOrder = None \<rparr>"

definition ex_status_req :: "order_status \<Rightarrow> status_req" where
  "ex_status_req st =
     \<lparr> sr_status = st, sr_estimatedTime = None, sr_estimatedArrival = None,
       sr_deliveredBy = None, sr_signature = None, sr_photo = None, sr_reason = None \<rparr>"

definition ex_refund_req :: refund_req where
  "ex_refund_req = \<lparr> rf_orderId = 101, rf_amount = None, rf_reason = Some ''cold food'' \<rparr>"

text \<open>A gateway that answers, and one that fails on every call.\<close>

definition ex_retrieve :: "intent_status \<Rightarrow> string \<Rightarrow> intent option outcome" where
  "ex_retrieve st pid =
     Returned (Some \<lparr> in_id = pid, in_client_secret = ''secret'', in_amount = 6300,
                      in_status = st \<rparr>)"

definition ex_refund :: "string \<Rightarrow> js_number \<Rightarrow> refund outcome" where
  "ex_refund pid amount = Returned \<lparr> re_id = ''re_1'', re_amount = amount \<rparr>"

definition ex_create_down :: "js_number \<Rightarrow> string option \<Rightarrow> intent outcome" where
  "ex_create_down amount pm = Threw"

definition ex_retrieve_down :: "string \<Rightarrow> intent option outcome" where
  "ex_retrieve_down pid = Threw"

definition ex_refund_down :: "string \<Rightarrow> js_number \<Rightarrow> refund outcome" where
  "ex_refund_down pid amount = Threw"

section \<open>Evaluation\<close>

text \<open>
  The equations that evaluate the arithmetic and the handlers on the example data. The
  recursion of \<open>bits\<close> is unfolded on numerals only.
\<close>

declare bits.simps [simp del]

lemma floor_rat_numeral: "\<lfloor>numeral a / numeral b :: rat\<rfloor> = numeral a div numeral b"
  using floor_divide_of_int_eq [of "numeral a" "numeral b", where ?'a = rat] by simp

lemma floor_rat_one: "\<lfloor>1 / numeral b :: rat\<rfloor> = 1 div numeral b"
  using floor_divide_of_int_eq [of 1 "numeral b", where ?'a = rat] by simp

lemma ceiling_rat_numeral:
  "\<lceil>numeral a / numeral b :: rat\<rceil> = - ((- numeral a) div numeral b)"
  using ceiling_divide_eq_div [of "numeral a" "numeral b", where ?'a = rat] by simp

lemmas fl_eval =
  fl_def fl_pos_def ilog2_def round_even_def pow2_def bits.simps Let_def
  floor_rat_numeral floor_rat_one ceiling_rat_numeral js_truthy_def number_or_zero_def
  cents_def

lemmas ex_defs =
  ex_burger_def ex_soup_def ex_menu_def ex_restaurant_def ex_customer_def ex_owner_def
  ex_admin_def ex_driver_def ex_line_def ex_create_def ex_negative_tip_req_def
  ex_unknown_selection_req_def ex_order_def ex_paid_order_def ex_salad_order_def
  ex_status_req_def ex_refund_req_def ex_retrieve_def ex_refund_def ex_create_down_def
  ex_retrieve_down_def ex_refund_down_def initial_tracking_def

lemmas create_defs =
  orderData_def createOrder_def Order_create_def validate_create_def make_order_item_def
  item_price_def customization_total_def compute_pricing_def add_customization_def
  add_option_def Let_def

lemmas store_defs =
  findById_def findByIntent_def store_def save_def schema_valid_def item_valid_def
  pricing_valid_def is_number_def cancelledBy_valid_def cancelledBy_enum_def

lemmas status_defs =
  updateOrderStatus_def updateStatus_def status_allowed_def isAuthorized_def
  status_additionalData_def no_additionalData_def or_default_def cancelOrder_def
  canBeCancelled_def reason_or_def Let_def

lemmas pay_defs =
  createPaymentIntent_def confirmPayment_def refundOrder_def handleWebhook_def
  validate_refund_def refund_cents_def

text \<open>
  The arithmetic agrees with the doubles of the language: \<^verbatim>\<open>0.08\<close>,
  \<^verbatim>\<open>1.005 * 100\<close>, which is below 100.5, and \<^verbatim>\<open>26 + 26 * 0.08 + 0 + 26 * 0.02\<close>,
  which is below 28.6.
\<close>

lemma double_literal: "fl (8 / 100) = Finite (5764607523034235 / 2 ^ 56)"
  by (simp add: fl_eval)

lemma double_cents: "cents (fl (201 / 200)) = Finite 100"
  by (simp add: fl_eval)

lemma double_half_cent: "cents (Finite (1080863910568919 / 2 ^ 56)) = Finite 2"
  by (simp add: fl_eval)

lemma double_total:
  "p_total (compute_pricing (Finite 26) Pickup ex_restaurant None)
     = Finite (8050184333924761 / 2 ^ 48)"
  by (simp add: compute_pricing_def fl_eval)

section \<open>Properties of order creation\<close>

subsection \<open>No order is created\<close>

text \<open>
  The document that the handler hands to \<^verbatim>\<open>Order.create\<close> has no order number, so
  the validation rejects it: every request is answered by an error and the collection
  stays as it is. The same holds for the repeat route.
\<close>

lemma orderData_no_number:
  "orderData restaurants menus new_id u now req = Inr doc \<Longrightarrow> o_orderNumber doc = None"
  by (auto simp: orderData_def split: if_splits option.splits sum.splits)

lemma createOrder_never_creates:
  "isl (fst (createOrder restaurants menus orders new_id u now req))
   \<and> snd (createOrder restaurants menus orders new_id u now req) = orders"
proof (cases "orderData restaurants menus new_id u now req")
  case (Inl e)
  then show ?thesis by (simp add: createOrder_def)
next
  case (Inr doc)
  then have "\<not> schema_valid doc"
    by (simp add: schema_valid_def orderData_no_number)
  with Inr show ?thesis by (simp add: createOrder_def Order_create_def)
qed


lemma repeatOrder_never_creates:
  "isl (fst (repeatOrder restaurants orders new_id u now oid req))
   \<and> snd (repeatOrder restaurants orders new_id u now oid req) = orders"
  by (simp add: repeatOrder_def Order_create_def schema_valid_def split: option.splits)

subsection \<open>The item loop\<close>

text \<open>The loop fails at the first item that is not available, and only there.\<close>

lemma price_items_unavailable:
  "find (\<lambda>ri. \<not> item_available ms ri) items = Some ri \<Longrightarrow>
     price_items ms items acc s = Inl (ItemUnavailable (ri_menuItem ri))"
proof (induction items arbitrary: acc s)
  case Nil
  then show ?case by simp
next
  case (Cons x rest)
  then show ?case
    by (auto simp: item_available_def split: option.splits if_splits)
qed

text \<open>
  When every item is available the loop returns, having added one line for each
  requested item, built from the menu item of that identifier, and the subtotal is the
  sum of the line subtotals from left to right.
\<close>

lemma price_items_lines:
  "list_all (item_available ms) items \<Longrightarrow>
     price_items ms items acc s
       = Inr (acc @ map (\<lambda>ri. make_order_item
                             (the (find (\<lambda>m. mi_id m = ri_menuItem ri) ms)) ri) items,
              foldl (\<lambda>a oi. js_add a (oi_subtotal oi)) s
                (map (\<lambda>ri. make_order_item
                             (the (find (\<lambda>m. mi_id m = ri_menuItem ri) ms)) ri) items))"
proof (induction items arbitrary: acc s)
  case Nil
  then show ?case by simp
next
  case (Cons x rest)
  from Cons.prems have hd: "item_available ms x" and rest: "list_all (item_available ms) rest"
    by simp_all
  from hd obtain mi where mi: "find (\<lambda>m. mi_id m = ri_menuItem x) ms = Some mi"
    and av: "mi_isAvailable mi"
    by (auto simp: item_available_def split: option.splits)
  show ?case
    using mi av Cons.IH [OF rest] by simp
qed

lemma price_items_first_unavailable:
  "\<not> list_all (item_available ms) items \<Longrightarrow>
     \<exists>ri. find (\<lambda>ri. \<not> item_available ms ri) items = Some ri"
  by (cases "find (\<lambda>ri. \<not> item_available ms ri) items")
    (auto simp: find_None_iff list_all_iff)





subsection \<open>Pricing\<close>


lemma orderData_pricing:
  assumes "orderData restaurants menus new_id u now req = Inr doc"
    and "find (\<lambda>r. r_id r = cr_restaurant req) restaurants = Some rest"
  shows "o_pricing doc =
           compute_pricing (foldl (\<lambda>a oi. js_add a (oi_subtotal oi)) (Finite 0) (o_items doc))
             (cr_orderType req) rest (cr_tip req)"
proof -
  from assms obtain mn where
    mn: "find (\<lambda>m. m_restaurant m = cr_restaurant req \<and> m_isActive m) menus = Some mn"
    and ok: "\<not> isl (price_items (m_items mn) (cr_items req) [] (Finite 0))"
    by (auto simp: orderData_def split: if_splits option.splits sum.splits)
  have "list_all (item_available (m_items mn)) (cr_items req)"
  proof (rule ccontr)
    assume "\<not> list_all (item_available (m_items mn)) (cr_items req)"
    from price_items_first_unavailable [OF this] obtain ri
      where "find (\<lambda>ri. \<not> item_available (m_items mn) ri) (cr_items req) = Some ri" ..
    from price_items_unavailable [OF this] ok show False by simp
  qed
  from price_items_lines [OF this, of "[]" "Finite 0"] assms mn show ?thesis
    by (auto simp: orderData_def split: if_splits)
qed

text \<open>
  The scenario of the specification, as far as the handler gets: for a subtotal of 50,
  a tip of 5 and a delivery fee of 3 the document carries a tax of 4, a service fee of
  1 and a total of 63.
\<close>

lemma orderData_scenario:
  "o_pricing (projr (orderData [ex_restaurant] [ex_menu] 100 ex_customer 1000
       (ex_create [ex_line 5] Delivery (Some ''1 Main St'') (Some 5)))) =
     \<lparr> p_subtotal = Finite 50, p_tax = Finite 4, p_deliveryFee = Finite 3,
       p_serviceFee = Finite 1, p_discount = Finite 0, p_tip = Finite 5,
       p_total = Finite 63 \<rparr>"
  by (simp add: ex_defs create_defs fl_eval)

text \<open>
  C1. For every valid order creation the tax is 8 percent and the service fee 2 percent
  of the subtotal, the delivery fee is the restaurant's fee for a delivery and 0
  otherwise, and the total is subtotal + tax + deliveryFee + serviceFee + tip - discount,
  floored at 0. The handler computes the rates, the fee and the sum in doubles
  (\<open>orderData_pricing\<close>, \<open>orderData_scenario\<close>) and takes no maximum: the route has
  no validator on the tip, and for five burgers at 10 for pickup with a tip of -100
  the document it builds has a total of -45, which \<^verbatim>\<open>calculateTotal\<close>, the method of
  the model that applies \<^verbatim>\<open>Math.max(total, 0)\<close>, would set to 0. The document is then
  rejected by \<^verbatim>\<open>Order.create\<close> for its missing order number, and the request is
  answered 500 with nothing stored.
\<close>

theorem createOrder_negative_tip:
  "\<not> isl (orderData [ex_restaurant] [ex_menu] 100 ex_customer 1000 ex_negative_tip_req)
   \<and> o_pricing (projr (orderData [ex_restaurant] [ex_menu] 100 ex_customer 1000
                         ex_negative_tip_req))
       = \<lparr> p_subtotal = Finite 50, p_tax = Finite 4, p_deliveryFee = Finite 0,
           p_serviceFee = Finite 1, p_discount = Finite 0, p_tip = Finite (- 100),
           p_total = Finite (- 45) \<rparr>
   \<and> p_total (o_pricing (calculateTotal (projr (orderData [ex_restaurant] [ex_menu] 100
                                   ex_customer 1000 ex_negative_tip_req)))) = Finite 0
   \<and> createOrder [ex_restaurant] [ex_menu] [] 100 ex_customer 1000 ex_negative_tip_req
       = (Inl ServerError, [])"
  by (simp add: ex_defs create_defs schema_valid_def calculateTotal_def fl_eval)

subsection \<open>Items, sizes and customizations\<close>




subsection \<open>The delivery address\<close>

text \<open>
  No validator of the route and no test of the handler reads the delivery address:
  for a delivery request without an address the handler gets as far as the document,
  which has no address.
\<close>

lemma orderData_delivery_without_address:
  "\<not> isl (orderData [ex_restaurant] [ex_menu] 100 ex_customer 1000
             (ex_create [ex_line 1] Delivery None None))
   \<and> o_deliveryAddress (projr (orderData [ex_restaurant] [ex_menu] 100 ex_customer 1000
             (ex_create [ex_line 1] Delivery None None))) = None"
  by (simp add: ex_defs create_defs fl_eval)




section \<open>Properties of the store and of saving\<close>

lemma findById_Some: "findById orders i = Some x \<Longrightarrow> o_id x = i \<and> x \<in> set orders"
  by (auto simp: findById_def find_Some_iff)

lemma findByIntent_Some:
  "findByIntent orders pid = Some x \<Longrightarrow>
     pay_stripePaymentIntentId (o_payment x) = Some pid \<and> x \<in> set orders"
  by (auto simp: findByIntent_def find_Some_iff)

text \<open>A document written back is the one found under its identifier afterwards.\<close>

lemma findById_store:
  "findById orders i = Some x \<Longrightarrow> o_id ord = o_id x \<Longrightarrow> findById (store orders ord) i = Some ord"
  unfolding findById_def store_def by (induction orders) (auto split: if_splits)

lemma list_all_store:
  "list_all P orders \<Longrightarrow> P ord \<Longrightarrow> list_all P (store orders ord)"
  unfolding store_def by (induction orders) auto

lemma status_effects_id: "o_id (status_effects now st ad ord) = o_id ord"
  by (cases st) simp_all

lemma updateStatus_Some:
  "updateStatus orders now st ad ord = Some (ord', orders') \<Longrightarrow>
     ord' = status_effects now st ad ord \<and> orders' = store orders ord' \<and> schema_valid ord'"
  by (auto simp: updateStatus_def save_def Let_def split: if_splits)

lemma updateStatus_ok:
  "schema_valid (status_effects now st ad ord) \<Longrightarrow>
     updateStatus orders now st ad ord =
       Some (status_effects now st ad ord, store orders (status_effects now st ad ord))"
  by (simp add: updateStatus_def save_def Let_def)

subsection \<open>The enum of cancelledBy is kept by every write\<close>

lemma save_in_enum:
  assumes "save orders ord = Some orders'" and "list_all cancelledBy_in_enum orders"
    and "x \<in> set orders" and "o_tracking ord = o_tracking x"
  shows "list_all cancelledBy_in_enum orders'"
proof -
  from assms(1) have s: "orders' = store orders ord"
    by (simp add: save_def split: if_splits)
  from assms(2,3) have "cancelledBy_in_enum x" by (simp add: list_all_iff)
  with assms(4) have "cancelledBy_in_enum ord" by (simp add: cancelledBy_in_enum_def)
  with s assms(2) show ?thesis by (simp add: list_all_store)
qed

lemma status_effects_in_enum:
  assumes "cancelledBy_in_enum ord" and "cancelledBy_valid (status_effects now st ad ord)"
    and "st = Cancelled \<longrightarrow> ad_cancelledBy ad \<noteq> None"
  shows "cancelledBy_in_enum (status_effects now st ad ord)"
proof (cases st)
  case Cancelled
  with assms(3) obtain r where "ad_cancelledBy ad = Some r" by auto
  with assms(2) Cancelled show ?thesis
    by (simp add: cancelledBy_in_enum_def cancelledBy_valid_def)
qed (use assms(1) in \<open>simp_all add: cancelledBy_in_enum_def\<close>)

lemma updateStatus_in_enum:
  assumes "updateStatus orders now st ad ord = Some (ord', orders')"
    and "list_all cancelledBy_in_enum orders"
    and "x \<in> set orders"
    and "o_tracking ord = o_tracking x"
    and "st = Cancelled \<longrightarrow> ad_cancelledBy ad \<noteq> None"
  shows "list_all cancelledBy_in_enum orders' \<and> cancelledBy_in_enum ord'"
proof -
  note us = updateStatus_Some [OF assms(1)]
  have e: "ord' = status_effects now st ad ord" using us by blast
  have s: "orders' = store orders ord'" using us by blast
  have v: "cancelledBy_valid ord'" using us unfolding schema_valid_def by blast
  from assms(2,3) have "cancelledBy_in_enum x" by (simp add: list_all_iff)
  with assms(4) have "cancelledBy_in_enum ord" by (simp add: cancelledBy_in_enum_def)
  from status_effects_in_enum [OF this v [unfolded e] assms(5)] e
  have "cancelledBy_in_enum ord'" by simp
  with s assms(2) show ?thesis by (simp add: list_all_store)
qed

lemma updateOrderStatus_in_enum:
  assumes "list_all cancelledBy_in_enum orders"
  shows "list_all cancelledBy_in_enum (snd (updateOrderStatus orders u now oid req))"
proof (cases "findById orders oid")
  case None
  with assms show ?thesis by (simp add: updateOrderStatus_def)
next
  case (Some ord)
  note f = this
  show ?thesis
  proof (cases "updateStatus orders now (sr_status req) (status_additionalData u req) ord")
    case None
    with assms f show ?thesis
      by (simp add: updateOrderStatus_def split: option.splits)
  next
    case (Some r)
    obtain ord' orders' where r: "r = (ord', orders')" by (cases r)
    from updateStatus_in_enum [OF Some [unfolded r] assms, of ord] findById_Some [OF f]
    have "list_all cancelledBy_in_enum orders'" by (simp add: status_additionalData_def)
    with assms f Some r show ?thesis
      by (simp add: updateOrderStatus_def split: option.splits)
  qed
qed

lemma cancelOrder_in_enum:
  assumes "list_all cancelledBy_in_enum orders"
  shows "list_all cancelledBy_in_enum (snd (cancelOrder orders u now oid reason))"
proof (cases "findById orders oid")
  case None
  with assms show ?thesis by (simp add: cancelOrder_def)
next
  case (Some ord)
  note f = this
  let ?ad = "no_additionalData
               \<lparr> ad_reason := Some (reason_or reason ''No reason provided''),
                 ad_cancelledBy := Some (role_string (u_role u)) \<rparr>"
  show ?thesis
  proof (cases "updateStatus orders now Cancelled ?ad ord")
    case None
    with assms f show ?thesis by (auto simp: cancelOrder_def)
  next
    case (Some r)
    obtain ord' orders' where r: "r = (ord', orders')" by (cases r)
    from updateStatus_in_enum [OF Some [unfolded r] assms, of ord] findById_Some [OF f]
    have "list_all cancelledBy_in_enum orders'" by simp
    with assms f Some r show ?thesis by (auto simp: cancelOrder_def)
  qed
qed

lemma assignDriver_in_enum:
  assumes "list_all cancelledBy_in_enum orders"
  shows "list_all cancelledBy_in_enum (snd (assignDriver users orders u oid driverId))"
proof (cases "findById orders oid")
  case None
  with assms show ?thesis by (simp add: assignDriver_def)
next
  case (Some ord)
  note f = this
  show ?thesis
  proof (cases "find (\<lambda>d. u_id d = driverId) users")
    case None
    with assms f show ?thesis by (simp add: assignDriver_def)
  next
    case (Some driver)
    note d = this
    let ?ord1 = "ord\<lparr> o_deliveryDriver := Some driverId, o_driverPhone := Some (u_phone driver) \<rparr>"
    show ?thesis
    proof (cases "save orders ?ord1")
      case None
      with assms f d show ?thesis by (simp add: assignDriver_def)
    next
      case (Some orders')
      from save_in_enum [OF Some assms, of ord] findById_Some [OF f]
      have "list_all cancelledBy_in_enum orders'" by simp
      with assms f d Some show ?thesis by (simp add: assignDriver_def)
    qed
  qed
qed

lemma createReview_in_enum:
  assumes "list_all cancelledBy_in_enum orders"
  shows "list_all cancelledBy_in_enum (snd (createReview existing stored orders u now req))"
proof (cases "findById orders (rv_order req)")
  case None
  with assms show ?thesis by (simp add: createReview_def)
next
  case (Some ord)
  note f = this
  show ?thesis
  proof (cases "addFeedback orders now req ord")
    case None
    with assms f show ?thesis by (simp add: createReview_def)
  next
    case (Some r)
    obtain ord' orders' where r: "r = (ord', orders')" by (cases r)
    from Some r have "save orders ord' = Some orders'" and "o_tracking ord' = o_tracking ord"
      by (auto simp: addFeedback_def Let_def split: option.splits)
    from save_in_enum [OF this(1) assms, of ord] this(2) findById_Some [OF f]
    have "list_all cancelledBy_in_enum orders'" by simp
    with assms f Some r show ?thesis by (simp add: createReview_def)
  qed
qed

lemma createPaymentIntent_in_enum:
  assumes "list_all cancelledBy_in_enum orders"
  shows "list_all cancelledBy_in_enum (snd (createPaymentIntent g orders u oid pm))"
proof (cases "findById orders oid")
  case None
  with assms show ?thesis by (simp add: createPaymentIntent_def)
next
  case (Some ord)
  note f = this
  show ?thesis
  proof (cases "g (cents (p_total (o_pricing ord))) pm")
    case Threw
    with assms f show ?thesis by (simp add: createPaymentIntent_def)
  next
    case (Returned paymentIntent)
    note pi = this
    let ?ord1 = "ord\<lparr> o_payment := (o_payment ord)
                        \<lparr> pay_stripePaymentIntentId := Some (in_id paymentIntent),
                          pay_status := Pay_processing \<rparr> \<rparr>"
    show ?thesis
    proof (cases "save orders ?ord1")
      case None
      with assms f pi show ?thesis by (simp add: createPaymentIntent_def)
    next
      case (Some orders')
      from save_in_enum [OF Some assms, of ord] findById_Some [OF f]
      have "list_all cancelledBy_in_enum orders'" by simp
      with assms f pi Some show ?thesis by (simp add: createPaymentIntent_def)
    qed
  qed
qed

lemma confirmPayment_in_enum:
  assumes "list_all cancelledBy_in_enum orders"
  shows "list_all cancelledBy_in_enum (snd (confirmPayment g orders u now pid))"
proof (cases "findByIntent orders pid")
  case None
  with assms show ?thesis
    by (simp add: confirmPayment_def split: outcome.splits option.splits)
next
  case (Some ord)
  note f = this
  show ?thesis
  proof (cases "g pid")
    case Threw
    with assms show ?thesis by (simp add: confirmPayment_def)
  next
    case (Returned r)
    note g = this
    show ?thesis
    proof (cases r)
      case None
      with g assms show ?thesis by (simp add: confirmPayment_def)
    next
      case (Some paymentIntent)
      note pi = this
      show ?thesis
      proof (cases "in_status paymentIntent = Succeeded")
        case True
        note su = this
        let ?ord1 = "ord\<lparr> o_payment := (o_payment ord)
                             \<lparr> pay_status := Pay_completed,
                               pay_paidAt := Some now,
                               pay_transactionId := Some (in_id paymentIntent) \<rparr> \<rparr>"
        show ?thesis
        proof (cases "updateStatus orders now Confirmed no_additionalData ?ord1")
          case None
          with assms g pi f su show ?thesis by (simp add: confirmPayment_def)
        next
          case (Some q)
          obtain ord' orders' where q: "q = (ord', orders')" by (cases q)
          note up = Some [unfolded q]
          from updateStatus_in_enum [OF up assms, of ord] findByIntent_Some [OF f]
          have i: "list_all cancelledBy_in_enum orders'" "cancelledBy_in_enum ord'"
            by simp_all
          show ?thesis
          proof (cases "save orders' ord'")
            case None
            with assms g pi f su up i show ?thesis by (simp add: confirmPayment_def)
          next
            case (Some orders'')
            then have "list_all cancelledBy_in_enum orders''"
              using i by (auto simp: save_def list_all_store split: if_splits)
            with assms g pi f su up Some show ?thesis by (simp add: confirmPayment_def)
          qed
        qed
      next
        case False
        note su = this
        let ?ord1 = "if in_status paymentIntent = Requires_action then
                       ord\<lparr> o_payment := (o_payment ord)\<lparr> pay_status := Pay_processing \<rparr> \<rparr>
                     else if in_status paymentIntent = Payment_failed then
                       ord\<lparr> o_payment := (o_payment ord)\<lparr> pay_status := Pay_failed \<rparr> \<rparr>
                     else ord"
        have t: "o_tracking ?ord1 = o_tracking ord" by simp
        show ?thesis
        proof (cases "save orders ?ord1")
          case None
          with assms g pi f su show ?thesis by (simp add: confirmPayment_def Let_def)
        next
          case (Some orders')
          from save_in_enum [OF Some assms _ t] findByIntent_Some [OF f]
          have "list_all cancelledBy_in_enum orders'" by simp
          with assms g pi f su Some show ?thesis by (simp add: confirmPayment_def Let_def)
        qed
      qed
    qed
  qed
qed

lemma refundOrder_in_enum:
  assumes "list_all cancelledBy_in_enum orders"
  shows "list_all cancelledBy_in_enum (snd (refundOrder g orders u now req))"
proof (cases "findById orders (rf_orderId req)")
  case None
  with assms show ?thesis by (simp add: refundOrder_def)
next
  case (Some ord)
  note f = this
  show ?thesis
  proof (cases "pay_stripePaymentIntentId (o_payment ord)")
    case None
    with assms f show ?thesis by (simp add: refundOrder_def)
  next
    case (Some pid)
    note p = this
    show ?thesis
    proof (cases "g pid (refund_cents (rf_amount req) ord)")
      case Threw
      with assms f p show ?thesis by (simp add: refundOrder_def)
    next
      case (Returned r)
      note g = this
      let ?ad = "no_additionalData
                   \<lparr> ad_reason := Some (reason_or (rf_reason req) ''Payment refunded''),
                     ad_cancelledBy := Some (role_string (u_role u)) \<rparr>"
      let ?ord1 = "ord\<lparr> o_payment := (o_payment ord)
                           \<lparr> pay_status := Pay_refunded,
                             pay_refundedAt := Some now,
                             pay_refundAmount :=
                               Some (js_div_100 (refund_cents (rf_amount req) ord)) \<rparr> \<rparr>"
      show ?thesis
      proof (cases "updateStatus orders now Refunded ?ad ?ord1")
        case None
        with assms f p g show ?thesis by (auto simp: refundOrder_def)
      next
        case (Some q)
        obtain ord' orders' where q: "q = (ord', orders')" by (cases q)
        from updateStatus_in_enum [OF Some [unfolded q] assms, of ord] findById_Some [OF f]
        have "list_all cancelledBy_in_enum orders'" by simp
        with assms f p g Some q show ?thesis by (auto simp: refundOrder_def)
      qed
    qed
  qed
qed

lemma handleWebhook_succeeded_in_enum:
  assumes "list_all cancelledBy_in_enum orders"
  shows "list_all cancelledBy_in_enum
           (snd (handleWebhook (Returned (Payment_intent_succeeded pid)) orders now))"
proof (cases "findByIntent orders pid")
  case None
  with assms show ?thesis by (simp add: handleWebhook_def)
next
  case (Some ord)
  note f = this
  let ?ord1 = "ord\<lparr> o_payment := (o_payment ord)
                       \<lparr> pay_status := Pay_completed,
                         pay_paidAt := Some now,
                         pay_transactionId := Some pid \<rparr> \<rparr>"
  show ?thesis
  proof (cases "o_status ord = Pending")
    case True
    note st = this
    show ?thesis
    proof (cases "updateStatus orders now Confirmed no_additionalData ?ord1")
      case None
      with assms f st show ?thesis by (simp add: handleWebhook_def Let_def)
    next
      case (Some q)
      obtain ord' orders' where q: "q = (ord', orders')" by (cases q)
      from updateStatus_in_enum [OF Some [unfolded q] assms, of ord] findByIntent_Some [OF f]
      have "list_all cancelledBy_in_enum orders'" by simp
      with assms f st Some q show ?thesis by (simp add: handleWebhook_def Let_def)
    qed
  next
    case False
    note st = this
    show ?thesis
    proof (cases "save orders ?ord1")
      case None
      with assms f st show ?thesis by (simp add: handleWebhook_def Let_def)
    next
      case (Some orders')
      from save_in_enum [OF Some assms, of ord] findByIntent_Some [OF f]
      have "list_all cancelledBy_in_enum orders'" by simp
      with assms f st Some show ?thesis by (simp add: handleWebhook_def Let_def)
    qed
  qed
qed

lemma handleWebhook_failed_in_enum:
  assumes "list_all cancelledBy_in_enum orders"
  shows "list_all cancelledBy_in_enum
           (snd (handleWebhook (Returned (Payment_intent_payment_failed pid)) orders now))"
proof (cases "findByIntent orders pid")
  case None
  with assms show ?thesis by (simp add: handleWebhook_def)
next
  case (Some ord)
  note f = this
  let ?ord1 = "ord\<lparr> o_payment := (o_payment ord)\<lparr> pay_status := Pay_failed \<rparr> \<rparr>"
  show ?thesis
  proof (cases "save orders ?ord1")
    case None
    with assms f show ?thesis by (simp add: handleWebhook_def)
  next
    case (Some orders')
    from save_in_enum [OF Some assms, of ord] findByIntent_Some [OF f]
    have "list_all cancelledBy_in_enum orders'" by simp
    with assms f Some show ?thesis by (simp add: handleWebhook_def)
  qed
qed

lemma handleWebhook_in_enum:
  assumes "list_all cancelledBy_in_enum orders"
  shows "list_all cancelledBy_in_enum (snd (handleWebhook c orders now))"
proof (cases c)
  case Threw
  with assms show ?thesis by (simp add: handleWebhook_def)
next
  case (Returned ev)
  with assms show ?thesis
    by (cases ev)
      (simp_all add: handleWebhook_succeeded_in_enum handleWebhook_failed_in_enum,
        simp add: handleWebhook_def)
qed

subsection \<open>Cancellations\<close>

text \<open>The role strings that are in the enum are those of the customer and the admin.\<close>

lemma role_string_enum:
  "role_string r \<in> set cancelledBy_enum \<longleftrightarrow> r \<in> {Customer, Admin}"
  by (cases r) (simp_all add: cancelledBy_enum_def)

lemma cancel_rejected:
  "r \<in> {Restaurant_owner, Delivery_driver} \<Longrightarrow>
     updateStatus orders now Cancelled (ad\<lparr>ad_cancelledBy := Some (role_string r)\<rparr>) ord = None"
  using role_string_enum [of r]
  by (auto simp: updateStatus_def save_def schema_valid_def cancelledBy_valid_def Let_def)

text \<open>
  A cancellation that is written carries the role of the actor, who is a customer or
  an admin, and the document is the one stored under the identifier.
\<close>

lemma cancel_stored:
  assumes "findById orders oid = Some ord"
    and "updateStatus orders now Cancelled ad ord = Some (ord', orders')"
    and "ad_cancelledBy ad = Some (role_string r)"
  shows "r \<in> {Customer, Admin}
         \<and> findById orders' oid = Some ord'
         \<and> o_status ord' = Cancelled
         \<and> map_option c_cancelledBy (t_cancelled (o_tracking ord')) = Some (Some (role_string r))"
proof -
  note us = updateStatus_Some [OF assms(2)]
  have e: "ord' = status_effects now Cancelled ad ord" using us by blast
  have s: "orders' = store orders ord'" using us by blast
  have v: "cancelledBy_valid ord'" using us unfolding schema_valid_def by blast
  from e v assms(3) have "role_string r \<in> set cancelledBy_enum"
    by (simp add: cancelledBy_valid_def)
  then have "r \<in> {Customer, Admin}" by (simp only: role_string_enum)
  moreover from findById_store [OF assms(1), of ord'] e s
  have "findById orders' oid = Some ord'" by simp
  ultimately show ?thesis using e assms(3) by simp
qed

lemma cancelOrder_stored:
  assumes "cancelOrder orders u now oid reason = (Inr ord', orders')"
  shows "u_role u \<in> {Customer, Admin}
         \<and> findById orders' oid = Some ord'
         \<and> o_status ord' = Cancelled
         \<and> map_option c_cancelledBy (t_cancelled (o_tracking ord'))
             = Some (Some (role_string (u_role u)))"
proof -
  let ?ad = "no_additionalData
               \<lparr> ad_reason := Some (reason_or reason ''No reason provided''),
                 ad_cancelledBy := Some (role_string (u_role u)) \<rparr>"
  obtain ord where f: "findById orders oid = Some ord"
    using assms by (cases "findById orders oid") (simp_all add: cancelOrder_def)
  have up: "updateStatus orders now Cancelled ?ad ord = Some (ord', orders')"
    using assms f
    by (cases "updateStatus orders now Cancelled ?ad ord")
      (auto simp: cancelOrder_def split: if_splits)
  from cancel_stored [OF f up] show ?thesis by simp
qed

lemma updateOrderStatus_cancel_stored:
  assumes "updateOrderStatus orders u now oid req = (Inr ord', orders')"
    and "sr_status req = Cancelled"
  shows "u_role u \<in> {Customer, Admin}
         \<and> findById orders' oid = Some ord'
         \<and> o_status ord' = Cancelled
         \<and> map_option c_cancelledBy (t_cancelled (o_tracking ord'))
             = Some (Some (role_string (u_role u)))"
proof -
  obtain ord where f: "findById orders oid = Some ord"
    using assms(1)
    by (cases "findById orders oid") (simp_all add: updateOrderStatus_def split: if_splits)
  have up: "updateStatus orders now Cancelled (status_additionalData u req) ord
              = Some (ord', orders')"
  proof (cases "updateStatus orders now Cancelled (status_additionalData u req) ord")
    case None
    with assms f show ?thesis
      by (simp add: updateOrderStatus_def split: if_splits option.splits)
  next
    case (Some r)
    with assms f show ?thesis
      by (cases r) (simp add: updateOrderStatus_def split: if_splits option.splits)
  qed
  from cancel_stored [OF f up] show ?thesis by (simp add: status_additionalData_def)
qed

lemma cancelOrder_role_rejected:
  "u_role u \<in> {Restaurant_owner, Delivery_driver} \<Longrightarrow>
     isl (fst (cancelOrder orders u now oid reason))
     \<and> snd (cancelOrder orders u now oid reason) = orders"
  using cancel_rejected [of "u_role u"]
  by (auto simp: cancelOrder_def split: option.splits)

lemma updateOrderStatus_role_rejected:
  "u_role u \<in> {Restaurant_owner, Delivery_driver} \<Longrightarrow> sr_status req = Cancelled \<Longrightarrow>
     isl (fst (updateOrderStatus orders u now oid req))
     \<and> snd (updateOrderStatus orders u now oid req) = orders"
  using cancel_rejected [of "u_role u" orders now "status_additionalData u req"]
  by (auto simp: updateOrderStatus_def status_additionalData_def split: option.splits)

section \<open>Properties of the status route\<close>

text \<open>The table of the handler, as pairs of a source and a target.\<close>

lemma validTransitions_table:
  "validTransitions s = Some targets \<Longrightarrow>
     (t \<in> set targets) =
       ((s, t) \<in> {(Pending, Confirmed), (Pending, Cancelled),
                   (Confirmed, Preparing), (Confirmed, Cancelled),
                   (Preparing, Ready_for_pickup), (Preparing, Cancelled),
                   (Ready_for_pickup, Out_for_delivery), (Ready_for_pickup, Delivered),
                   (Ready_for_pickup, Cancelled),
                   (Out_for_delivery, Delivered), (Out_for_delivery, Cancelled)})"
  by (cases s) auto

text \<open>A status update succeeds only for an authorized actor and a pair of the table.\<close>

lemma updateOrderStatus_success_legal:
  assumes "updateOrderStatus orders u now oid req = (Inr ord', orders')"
  shows "\<exists>ord targets. findById orders oid = Some ord
           \<and> validTransitions (o_status ord) = Some targets \<and> sr_status req \<in> set targets
           \<and> isAuthorized ord u (sr_status req)"
proof -
  obtain ord where f: "findById orders oid = Some ord"
    using assms
    by (cases "findById orders oid") (simp_all add: updateOrderStatus_def split: if_splits)
  from assms f have a: "isAuthorized ord u (sr_status req)"
    by (simp add: updateOrderStatus_def split: if_splits)
  from assms f a obtain targets where t: "validTransitions (o_status ord) = Some targets"
    by (cases "validTransitions (o_status ord)")
      (simp_all add: updateOrderStatus_def split: if_splits)
  from assms f a t have "sr_status req \<in> set targets"
    by (simp add: updateOrderStatus_def split: if_splits)
  with f a t show ?thesis by blast
qed

text \<open>
  From a status that has a row in the table, a target outside the row is answered by
  IllegalTransition with both statuses, and nothing is written.
\<close>

lemma updateOrderStatus_illegal:
  assumes "findById orders oid = Some ord"
    and "isAuthorized ord u (sr_status req)"
    and "validTransitions (o_status ord) = Some targets"
    and "sr_status req \<notin> set targets"
  shows "updateOrderStatus orders u now oid req
           = (Inl (IllegalTransition (o_status ord) (sr_status req)), orders)"
proof -
  from assms(2) have "sr_status req \<in> set status_allowed"
    by (auto simp: isAuthorized_def status_allowed_def split: if_splits)
  with assms show ?thesis
    by (simp add: updateOrderStatus_def)
qed

text \<open>From \<^verbatim>\<open>refunded\<close>, which has no row, every authorized request is answered 500.\<close>

lemma updateOrderStatus_refunded:
  assumes "findById orders oid = Some ord"
    and "isAuthorized ord u (sr_status req)"
    and "o_status ord = Refunded"
  shows "updateOrderStatus orders u now oid req = (Inl ServerError, orders)"
proof -
  from assms(2) have "sr_status req \<in> set status_allowed"
    by (auto simp: isAuthorized_def status_allowed_def split: if_splits)
  with assms show ?thesis
    by (simp add: updateOrderStatus_def)
qed

text \<open>
  C4. For a status update by an authorized actor, the transition succeeds only if the
  pair of source and target is in the table, and any other attempt, also out of the
  terminal statuses delivered, cancelled and refunded, fails with IllegalTransition
  naming both statuses and leaves the order unchanged. This holds from every status
  but \<^verbatim>\<open>refunded\<close> (\<open>updateOrderStatus_success_legal\<close>, \<open>updateOrderStatus_illegal\<close>).
  The table has the rows \<^verbatim>\<open>delivered: []\<close> and \<^verbatim>\<open>cancelled: []\<close> and no row for
  \<^verbatim>\<open>refunded\<close>: an admin who asks for \<^verbatim>\<open>confirmed\<close> on a refunded order gets the
  500 of the catch block, not IllegalTransition. The order is unchanged.
\<close>

theorem updateOrderStatus_from_refunded:
  "updateOrderStatus [ex_order Refunded Pay_refunded] ex_admin 2000 100 (ex_status_req Confirmed)
     = (Inl ServerError, [ex_order Refunded Pay_refunded])"
  by (simp add: ex_defs store_defs status_defs)

text \<open>
  C5. Authorization is checked before the legality of the transition. For an order
  that exists, whatever its status: a request for confirmed, preparing or
  ready_for_pickup is answered NotAuthorized exactly when the actor is neither the
  restaurant owner nor an admin; a request for out_for_delivery or delivered exactly
  when the actor is neither the assigned driver nor an admin; a request for cancelled
  exactly when the actor is none of customer, restaurant owner and admin. Nothing is
  written.
\<close>

theorem status_authorization_first:
  assumes "findById orders oid = Some ord"
  shows "(sr_status req \<in> {Confirmed, Preparing, Ready_for_pickup} \<longrightarrow>
            (updateOrderStatus orders u now oid req = (Inl NotAuthorized, orders))
              = (o_restaurant_owner ord \<noteq> u_id u \<and> u_role u \<noteq> Admin))
       \<and> (sr_status req \<in> {Out_for_delivery, Delivered} \<longrightarrow>
            (updateOrderStatus orders u now oid req = (Inl NotAuthorized, orders))
              = (o_deliveryDriver ord \<noteq> Some (u_id u) \<and> u_role u \<noteq> Admin))
       \<and> (sr_status req = Cancelled \<longrightarrow>
            (updateOrderStatus orders u now oid req = (Inl NotAuthorized, orders))
              = (o_customer ord \<noteq> u_id u \<and> o_restaurant_owner ord \<noteq> u_id u \<and> u_role u \<noteq> Admin))"
proof -
  have "(updateOrderStatus orders u now oid req = (Inl NotAuthorized, orders))
          = (\<not> isAuthorized ord u (sr_status req))"
    if "sr_status req \<in> set status_allowed"
  proof (cases "isAuthorized ord u (sr_status req)")
    case True
    with assms that show ?thesis
      by (simp add: updateOrderStatus_def split: option.splits prod.splits)
  next
    case False
    with assms that show ?thesis
      by (simp add: updateOrderStatus_def)
  qed
  then show ?thesis
    by (auto simp: isAuthorized_def status_allowed_def split: option.splits)
qed

text \<open>
  The customer who asks for confirmed on a pending order is refused although the pair
  is in the table; so are the customer who asks for delivered and the driver who asks
  for cancelled on a delivered order.
\<close>

theorem status_authorization_first_witness:
  "validTransitions Pending = Some [Confirmed, Cancelled]
   \<and> updateOrderStatus [ex_order Pending Pay_pending] ex_customer 2000 100 (ex_status_req Confirmed)
       = (Inl NotAuthorized, [ex_order Pending Pay_pending])
   \<and> updateOrderStatus [ex_order Ready_for_pickup Pay_pending] ex_customer 2000 100 (ex_status_req Delivered)
       = (Inl NotAuthorized, [ex_order Ready_for_pickup Pay_pending])
   \<and> updateOrderStatus [ex_order Delivered Pay_pending] ex_driver 2000 100 (ex_status_req Cancelled)
       = (Inl NotAuthorized, [ex_order Delivered Pay_pending])"
proof -
  have f: "findById [ex_order st pst] 100 = Some (ex_order st pst)" for st pst
    by (simp add: findById_def ex_order_def)
  have a: "sr_status (ex_status_req Confirmed) \<in> {Confirmed, Preparing, Ready_for_pickup}"
    and b: "sr_status (ex_status_req Delivered) \<in> {Out_for_delivery, Delivered}"
    and c: "sr_status (ex_status_req Cancelled) = Cancelled"
    by (simp_all add: ex_status_req_def)
  from status_authorization_first [OF f, THEN conjunct1, THEN mp, OF a,
        of Pending Pay_pending ex_customer 2000]
  have 1: "updateOrderStatus [ex_order Pending Pay_pending] ex_customer 2000 100 (ex_status_req Confirmed)
       = (Inl NotAuthorized, [ex_order Pending Pay_pending])"
    by (simp add: ex_order_def ex_customer_def)
  from status_authorization_first [OF f, THEN conjunct2, THEN conjunct1, THEN mp, OF b,
        of Ready_for_pickup Pay_pending ex_customer 2000]
  have 2: "updateOrderStatus [ex_order Ready_for_pickup Pay_pending] ex_customer 2000 100 (ex_status_req Delivered)
       = (Inl NotAuthorized, [ex_order Ready_for_pickup Pay_pending])"
    by (simp add: ex_order_def ex_customer_def)
  from status_authorization_first [OF f, THEN conjunct2, THEN conjunct2, THEN mp, OF c,
        of Delivered Pay_pending ex_driver 2000]
  have 3: "updateOrderStatus [ex_order Delivered Pay_pending] ex_driver 2000 100 (ex_status_req Cancelled)
       = (Inl NotAuthorized, [ex_order Delivered Pay_pending])"
    by (simp add: ex_order_def ex_driver_def)
  from 1 2 3 show ?thesis by simp
qed

section \<open>The enum of cancelledBy\<close>

text \<open>
  The scenario of the specification: the customer cancels a pending order, and the
  tracking records \<^verbatim>\<open>customer\<close>.
\<close>

lemma cancelOrder_by_customer:
  "map_option c_cancelledBy (t_cancelled (o_tracking (projr (fst
      (cancelOrder [ex_order Pending Pay_pending] ex_customer 2000 100 None)))))
     = Some (Some ''customer'')"
  by (simp add: ex_defs store_defs status_defs)

text \<open>
  C10. Every persisted order with a cancelled tracking record has its
  \<^verbatim>\<open>cancelledBy\<close> in the enum customer, restaurant, admin, system: every handler
  that writes orders keeps this (the creation and the repeat route, the status and the
  cancel route, the assignment of a driver, the feedback of a review, and the four
  payment routes). The two cancellation routes write the role of the actor as it is:
  a cancellation that is written is one by a customer or an admin and records that
  role, and a cancellation by an actor of role restaurant_owner or delivery_driver
  persists nothing, the request fails and the collection is unchanged. When that actor
  is the owner of the restaurant and the order can be cancelled, the failure is the
  rejected save, answered 500.
\<close>

theorem cancelledBy_enum_invariant:
  "(list_all cancelledBy_in_enum orders \<longrightarrow>
      list_all cancelledBy_in_enum
        (snd (createOrder restaurants menus orders new_id u now creq))
      \<and> list_all cancelledBy_in_enum
          (snd (repeatOrder restaurants orders new_id u now oid rpreq))
      \<and> list_all cancelledBy_in_enum (snd (updateOrderStatus orders u now oid req))
      \<and> list_all cancelledBy_in_enum (snd (cancelOrder orders u now oid reason))
      \<and> list_all cancelledBy_in_enum (snd (assignDriver users orders u oid driverId))
      \<and> list_all cancelledBy_in_enum
          (snd (createReview existingReview reviewStored orders u now rvreq))
      \<and> list_all cancelledBy_in_enum (snd (createPaymentIntent stripe_create orders u oid pm))
      \<and> list_all cancelledBy_in_enum (snd (confirmPayment stripe_retrieve orders u now pid))
      \<and> list_all cancelledBy_in_enum (snd (refundOrder stripe_refund orders u now rreq))
      \<and> list_all cancelledBy_in_enum (snd (handleWebhook constructed orders now)))
   \<and> (cancelOrder orders u now oid reason = (Inr ord1, orders1) \<longrightarrow>
        u_role u \<in> {Customer, Admin}
        \<and> findById orders1 oid = Some ord1
        \<and> o_status ord1 = Cancelled
        \<and> map_option c_cancelledBy (t_cancelled (o_tracking ord1))
            = Some (Some (role_string (u_role u))))
   \<and> (sr_status req = Cancelled
        \<and> updateOrderStatus orders u now oid req = (Inr ord2, orders2) \<longrightarrow>
        u_role u \<in> {Customer, Admin}
        \<and> findById orders2 oid = Some ord2
        \<and> o_status ord2 = Cancelled
        \<and> map_option c_cancelledBy (t_cancelled (o_tracking ord2))
            = Some (Some (role_string (u_role u))))
   \<and> (u_role u \<in> {Restaurant_owner, Delivery_driver} \<longrightarrow>
        isl (fst (cancelOrder orders u now oid reason))
        \<and> snd (cancelOrder orders u now oid reason) = orders
        \<and> (sr_status req = Cancelled \<longrightarrow>
             isl (fst (updateOrderStatus orders u now oid req))
             \<and> snd (updateOrderStatus orders u now oid req) = orders))
   \<and> (findById orders oid = Some ord \<and> o_restaurant_owner ord = u_id u
        \<and> u_role u = Restaurant_owner \<and> o_status ord \<in> {Pending, Confirmed} \<longrightarrow>
        cancelOrder orders u now oid reason = (Inl ServerError, orders)
        \<and> (sr_status req = Cancelled \<longrightarrow>
             updateOrderStatus orders u now oid req = (Inl ServerError, orders)))"
proof -
  have inv: "list_all cancelledBy_in_enum orders \<longrightarrow>
      list_all cancelledBy_in_enum
        (snd (createOrder restaurants menus orders new_id u now creq))
      \<and> list_all cancelledBy_in_enum
          (snd (repeatOrder restaurants orders new_id u now oid rpreq))
      \<and> list_all cancelledBy_in_enum (snd (updateOrderStatus orders u now oid req))
      \<and> list_all cancelledBy_in_enum (snd (cancelOrder orders u now oid reason))
      \<and> list_all cancelledBy_in_enum (snd (assignDriver users orders u oid driverId))
      \<and> list_all cancelledBy_in_enum
          (snd (createReview existingReview reviewStored orders u now rvreq))
      \<and> list_all cancelledBy_in_enum (snd (createPaymentIntent stripe_create orders u oid pm))
      \<and> list_all cancelledBy_in_enum (snd (confirmPayment stripe_retrieve orders u now pid))
      \<and> list_all cancelledBy_in_enum (snd (refundOrder stripe_refund orders u now rreq))
      \<and> list_all cancelledBy_in_enum (snd (handleWebhook constructed orders now))"
    by (simp add: createOrder_never_creates repeatOrder_never_creates
        updateOrderStatus_in_enum cancelOrder_in_enum assignDriver_in_enum
        createReview_in_enum createPaymentIntent_in_enum confirmPayment_in_enum
        refundOrder_in_enum handleWebhook_in_enum)
  have c1: "cancelOrder orders u now oid reason = (Inr ord1, orders1) \<longrightarrow>
        u_role u \<in> {Customer, Admin}
        \<and> findById orders1 oid = Some ord1
        \<and> o_status ord1 = Cancelled
        \<and> map_option c_cancelledBy (t_cancelled (o_tracking ord1))
            = Some (Some (role_string (u_role u)))"
    using cancelOrder_stored [of orders u now oid reason ord1 orders1] by blast
  have c2: "sr_status req = Cancelled
        \<and> updateOrderStatus orders u now oid req = (Inr ord2, orders2) \<longrightarrow>
        u_role u \<in> {Customer, Admin}
        \<and> findById orders2 oid = Some ord2
        \<and> o_status ord2 = Cancelled
        \<and> map_option c_cancelledBy (t_cancelled (o_tracking ord2))
            = Some (Some (role_string (u_role u)))"
    using updateOrderStatus_cancel_stored [of orders u now oid req ord2 orders2] by blast
  have r: "u_role u \<in> {Restaurant_owner, Delivery_driver} \<longrightarrow>
        isl (fst (cancelOrder orders u now oid reason))
        \<and> snd (cancelOrder orders u now oid reason) = orders
        \<and> (sr_status req = Cancelled \<longrightarrow>
             isl (fst (updateOrderStatus orders u now oid req))
             \<and> snd (updateOrderStatus orders u now oid req) = orders)"
    using cancelOrder_role_rejected [of u orders now oid reason]
      updateOrderStatus_role_rejected [of u req orders now oid] by blast
  have o: "findById orders oid = Some ord \<and> o_restaurant_owner ord = u_id u
        \<and> u_role u = Restaurant_owner \<and> o_status ord \<in> {Pending, Confirmed} \<longrightarrow>
        cancelOrder orders u now oid reason = (Inl ServerError, orders)
        \<and> (sr_status req = Cancelled \<longrightarrow>
             updateOrderStatus orders u now oid req = (Inl ServerError, orders))"
  proof (intro impI conjI)
    assume h: "findById orders oid = Some ord \<and> o_restaurant_owner ord = u_id u
        \<and> u_role u = Restaurant_owner \<and> o_status ord \<in> {Pending, Confirmed}"
    then have rej: "updateStatus orders now Cancelled
                    (ad\<lparr>ad_cancelledBy := Some (role_string (u_role u))\<rparr>) ord = None" for ad
      by (intro cancel_rejected) simp
    from h rej show "cancelOrder orders u now oid reason = (Inl ServerError, orders)"
      by (auto simp: cancelOrder_def canBeCancelled_def)
    assume "sr_status req = Cancelled"
    with h rej [of "status_additionalData u req"]
    show "updateOrderStatus orders u now oid req = (Inl ServerError, orders)"
      by (auto simp: updateOrderStatus_def status_additionalData_def status_allowed_def
          isAuthorized_def)
  qed
  from inv c1 c2 r o show ?thesis by (intro conjI)
qed

text \<open>
  The cancellation of the customer by the cancel route and the cancellation of the
  admin by the status route are written with the roles \<^verbatim>\<open>customer\<close> and
  \<^verbatim>\<open>admin\<close> and keep the invariant; the cancellation of the restaurant owner, by
  either route, is answered 500 and writes nothing.
\<close>

theorem cancelledBy_enum_invariant_witness:
  "list_all cancelledBy_in_enum [ex_order Pending Pay_pending]
   \<and> list_all cancelledBy_in_enum
       (snd (cancelOrder [ex_order Pending Pay_pending] ex_customer 2000 100 None))
   \<and> \<not> isl (fst (cancelOrder [ex_order Pending Pay_pending] ex_customer 2000 100 None))
   \<and> map_option c_cancelledBy (t_cancelled (o_tracking (projr (fst
        (cancelOrder [ex_order Pending Pay_pending] ex_customer 2000 100 None)))))
       = Some (Some ''customer'')
   \<and> \<not> isl (fst (updateOrderStatus [ex_order Pending Pay_pending] ex_admin 2000 100
                    (ex_status_req Cancelled)))
   \<and> map_option c_cancelledBy (t_cancelled (o_tracking (projr (fst
        (updateOrderStatus [ex_order Pending Pay_pending] ex_admin 2000 100
           (ex_status_req Cancelled))))))
       = Some (Some ''admin'')
   \<and> cancelOrder [ex_order Pending Pay_pending] ex_owner 2000 100 None
       = (Inl ServerError, [ex_order Pending Pay_pending])
   \<and> updateOrderStatus [ex_order Pending Pay_pending] ex_owner 2000 100 (ex_status_req Cancelled)
       = (Inl ServerError, [ex_order Pending Pay_pending])"
proof -
  let ?orders = "[ex_order Pending Pay_pending]"
  let ?c = "cancelOrder ?orders ex_customer 2000 100 None"
  let ?s = "updateOrderStatus ?orders ex_admin 2000 100 (ex_status_req Cancelled)"
  have v: "list_all cancelledBy_in_enum ?orders"
    by (simp add: cancelledBy_in_enum_def ex_order_def initial_tracking_def)
  have okc: "\<not> isl (fst ?c)" and oks: "\<not> isl (fst ?s)"
    by (simp_all add: ex_defs store_defs status_defs)
  have hc: "?c = (Inr (projr (fst ?c)), snd ?c)"
    using okc by (cases ?c; cases "fst ?c") simp_all
  have hs: "sr_status (ex_status_req Cancelled) = Cancelled
            \<and> ?s = (Inr (projr (fst ?s)), snd ?s)"
    using oks by (cases ?s; cases "fst ?s") (simp_all add: ex_status_req_def)
  have ro: "u_role ex_owner \<in> {Restaurant_owner, Delivery_driver}"
    by (simp add: ex_owner_def)
  have o: "findById ?orders 100 = Some (ex_order Pending Pay_pending)
        \<and> o_restaurant_owner (ex_order Pending Pay_pending) = u_id ex_owner
        \<and> u_role ex_owner = Restaurant_owner
        \<and> o_status (ex_order Pending Pay_pending) \<in> {Pending, Confirmed}"
    by (simp add: findById_def ex_order_def ex_owner_def)
  have c: "sr_status (ex_status_req Cancelled) = Cancelled"
    by (simp add: ex_status_req_def)
  note t1 = cancelledBy_enum_invariant [where orders = ?orders and u = ex_customer
      and now = 2000 and oid = 100 and reason = None, THEN conjunct1, THEN mp, OF v]
  note t2 = cancelledBy_enum_invariant [where orders = ?orders and u = ex_customer
      and now = 2000 and oid = 100 and reason = None,
      THEN conjunct2, THEN conjunct1, THEN mp, OF hc]
  note t3 = cancelledBy_enum_invariant [where orders = ?orders and u = ex_admin
      and now = 2000 and oid = 100 and req = "ex_status_req Cancelled",
      THEN conjunct2, THEN conjunct2, THEN conjunct1, THEN mp, OF hs]
  note t4 = cancelledBy_enum_invariant [where orders = ?orders and u = ex_owner
      and now = 2000 and oid = 100 and reason = None and req = "ex_status_req Cancelled",
      THEN conjunct2, THEN conjunct2, THEN conjunct2, THEN conjunct1, THEN mp, OF ro]
  note t5 = cancelledBy_enum_invariant [where orders = ?orders and u = ex_owner
      and now = 2000 and oid = 100 and reason = None and req = "ex_status_req Cancelled",
      THEN conjunct2, THEN conjunct2, THEN conjunct2, THEN conjunct2, THEN mp, OF o]
  have a: "list_all cancelledBy_in_enum (snd ?c)"
    using t1 by blast
  have b: "map_option c_cancelledBy (t_cancelled (o_tracking (projr (fst ?c))))
             = Some (Some ''customer'')"
    using t2 by (simp add: ex_customer_def)
  have d: "map_option c_cancelledBy (t_cancelled (o_tracking (projr (fst ?s))))
             = Some (Some ''admin'')"
    using t3 by (simp add: ex_admin_def)
  have e: "snd (cancelOrder ?orders ex_owner 2000 100 None) = ?orders"
    using t4 by blast
  from v a okc b oks d e t5 [THEN conjunct1] t5 [THEN conjunct2, THEN mp, OF c]
  show ?thesis by (intro conjI)
qed

section \<open>Properties of payment reconciliation\<close>

subsection \<open>Confirmation\<close>

lemma store_twice: "store (store orders ord) ord = store orders ord"
  by (simp add: store_def)

text \<open>
  What the confirm route does for the customer of the order when the gateway answers:
  the payment status follows the status of the intent, and on \<^verbatim>\<open>succeeded\<close> the
  payment time is stamped and the order status is set to confirmed, from any status.
\<close>

lemma confirmPayment_succeeded:
  assumes "paymentIntentId \<noteq> []"
    and "stripe_retrieve paymentIntentId = Returned (Some paymentIntent)"
    and "findByIntent orders paymentIntentId = Some ord"
    and "o_customer ord = u_id u"
    and "schema_valid ord"
    and "in_status paymentIntent = Succeeded"
  shows "confirmPayment stripe_retrieve orders u now paymentIntentId =
           (Inr (status_effects now Confirmed no_additionalData
                   (ord\<lparr> o_payment := (o_payment ord)
                           \<lparr> pay_status := Pay_completed, pay_paidAt := Some now,
                             pay_transactionId := Some (in_id paymentIntent) \<rparr> \<rparr>)),
            store orders
              (status_effects now Confirmed no_additionalData
                 (ord\<lparr> o_payment := (o_payment ord)
                         \<lparr> pay_status := Pay_completed, pay_paidAt := Some now,
                           pay_transactionId := Some (in_id paymentIntent) \<rparr> \<rparr>)))"
proof -
  let ?ord1 = "ord\<lparr> o_payment := (o_payment ord)
                  \<lparr> pay_status := Pay_completed, pay_paidAt := Some now,
                    pay_transactionId := Some (in_id paymentIntent) \<rparr> \<rparr>"
  let ?ord' = "status_effects now Confirmed no_additionalData ?ord1"
  from assms(5) have valid: "schema_valid ?ord'"
    by (simp add: schema_valid_def cancelledBy_valid_def)
  then have "updateStatus orders now Confirmed no_additionalData ?ord1
               = Some (?ord', store orders ?ord')"
    by (rule updateStatus_ok)
  moreover from valid have "save (store orders ?ord') ?ord' = Some (store orders ?ord')"
    by (simp only: save_def store_twice if_True)
  ultimately show ?thesis
    using assms(1-4,6) by (simp add: confirmPayment_def)
qed

lemma confirmPayment_mapping:
  assumes "paymentIntentId \<noteq> []"
    and "stripe_retrieve paymentIntentId = Returned (Some paymentIntent)"
    and "findByIntent orders paymentIntentId = Some ord"
    and "o_customer ord = u_id u"
    and "schema_valid ord"
  shows "\<exists>ord'. confirmPayment stripe_retrieve orders u now paymentIntentId
                   = (Inr ord', store orders ord')
           \<and> pay_status (o_payment ord') =
               (case in_status paymentIntent of
                  Succeeded \<Rightarrow> Pay_completed
                | Requires_action \<Rightarrow> Pay_processing
                | Payment_failed \<Rightarrow> Pay_failed
                | Other_intent_status \<Rightarrow> pay_status (o_payment ord))
           \<and> (in_status paymentIntent = Succeeded \<longrightarrow>
                 pay_paidAt (o_payment ord') = Some now \<and> o_status ord' = Confirmed)
           \<and> (in_status paymentIntent \<noteq> Succeeded \<longrightarrow> o_status ord' = o_status ord)"
proof (cases "in_status paymentIntent = Succeeded")
  case True
  from confirmPayment_succeeded [where stripe_retrieve = stripe_retrieve and now = now,
      OF assms True] True
  show ?thesis by simp
next
  case False
  with assms show ?thesis
    by (cases "in_status paymentIntent")
      (simp_all add: confirmPayment_def save_def schema_valid_def cancelledBy_valid_def Let_def)
qed

text \<open>
  C2. For a confirmPayment call whose intent has succeeded, the payment becomes
  completed, the payment time is stamped, and the order moves to confirmed only if it
  is still pending, an order in any other status keeping its status; requires_action
  gives processing and payment_failed gives failed. The mapping of the payment status
  holds (\<open>confirmPayment_mapping\<close>). The guard on the order status is in the webhook
  handler only: the confirm route calls \<^verbatim>\<open>updateStatus('confirmed')\<close> without it. An
  order that the restaurant is already preparing is set back to confirmed by the
  confirm route, and keeps its status under the same event of the webhook.
\<close>

theorem confirmPayment_resets_status:
  "\<not> isl (fst (confirmPayment (ex_retrieve Succeeded) [ex_order Preparing Pay_processing]
                  ex_customer 2000 ''pi_1''))
   \<and> map o_status (snd (confirmPayment (ex_retrieve Succeeded) [ex_order Preparing Pay_processing]
                          ex_customer 2000 ''pi_1'')) = [Confirmed]
   \<and> map o_status (snd (handleWebhook (Returned (Payment_intent_succeeded ''pi_1''))
                          [ex_order Preparing Pay_processing] 2000)) = [Preparing]"
  by (simp add: ex_defs pay_defs store_defs status_defs)

subsection \<open>The replay of a payment success\<close>




subsection \<open>Refund\<close>

text \<open>The amount that a refund records is a number, not NaN.\<close>

lemma fl_number: "is_number (fl x)"
  by (auto simp: fl_def fl_pos_def is_number_def Let_def)

lemma cents_number: "is_number x \<Longrightarrow> is_number (cents x)"
proof (cases x)
  case (Finite a)
  then show ?thesis
    using fl_number [of "a * 100"]
    by (cases "fl (a * 100)") (simp_all add: cents_def is_number_def)
qed (simp_all add: cents_def is_number_def)

lemma js_div_100_number: "is_number x \<Longrightarrow> is_number (js_div_100 x)"
  by (cases x) (simp_all add: fl_number)

lemma refund_amount_number:
  "is_number (p_total (o_pricing ord)) \<Longrightarrow>
     is_number (js_div_100 (refund_cents amount ord))"
  by (simp add: refund_cents_def js_div_100_number cents_number fl_number
      split: option.splits)

text \<open>
  What a refund does on a stored order with a completed payment and an intent on
  record, for a valid request of the customer, the restaurant owner or an admin, when
  the gateway accepts it: the amount sent is \<open>refund_cents\<close>, the total or the given
  amount in cents; the payment becomes refunded, with the time and with that amount
  divided by 100; the order status becomes refunded, whatever it was; and nothing else
  of the order changes.
\<close>

lemma refundOrder_effects:
  assumes "validate_refund req"
    and "findById orders (rf_orderId req) = Some ord"
    and "o_customer ord = u_id u \<or> o_restaurant_owner ord = u_id u \<or> u_role u = Admin"
    and "pay_status (o_payment ord) = Pay_completed"
    and "pay_stripePaymentIntentId (o_payment ord) = Some pid" and "pid \<noteq> []"
    and "stripe_refund pid (refund_cents (rf_amount req) ord) = Returned r"
    and "schema_valid ord"
  shows "refundOrder stripe_refund orders u now req =
           (Inr (ord\<lparr> o_payment := (o_payment ord)
                         \<lparr> pay_status := Pay_refunded, pay_refundedAt := Some now,
                           pay_refundAmount :=
                             Some (js_div_100 (refund_cents (rf_amount req) ord)) \<rparr>,
                       o_status := Refunded \<rparr>),
            store orders
              (ord\<lparr> o_payment := (o_payment ord)
                       \<lparr> pay_status := Pay_refunded, pay_refundedAt := Some now,
                         pay_refundAmount :=
                           Some (js_div_100 (refund_cents (rf_amount req) ord)) \<rparr>,
                     o_status := Refunded \<rparr>))"
proof -
  let ?ad = "no_additionalData
               \<lparr> ad_reason := Some (reason_or (rf_reason req) ''Payment refunded''),
                 ad_cancelledBy := Some (role_string (u_role u)) \<rparr>"
  let ?ord1 = "ord\<lparr> o_payment := (o_payment ord)
                  \<lparr> pay_status := Pay_refunded, pay_refundedAt := Some now,
                    pay_refundAmount :=
                      Some (js_div_100 (refund_cents (rf_amount req) ord)) \<rparr> \<rparr>"
  let ?ord' = "status_effects now Refunded ?ad ?ord1"
  from assms(8) have "is_number (p_total (o_pricing ord))"
    by (simp add: schema_valid_def pricing_valid_def)
  from refund_amount_number [OF this] assms(8) have "schema_valid ?ord'"
    by (simp add: schema_valid_def cancelledBy_valid_def)
  then have "updateStatus orders now Refunded ?ad ?ord1 = Some (?ord', store orders ?ord')"
    by (rule updateStatus_ok)
  with assms(1-7) have "refundOrder stripe_refund orders u now req
                          = (Inr ?ord', store orders ?ord')"
    by (auto simp: refundOrder_def)
  then show ?thesis by simp
qed

text \<open>
  The default amount is the total in cents, \<^verbatim>\<open>Math.round(order.pricing.total * 100)\<close>,
  and is recorded divided by 100: for a total in whole cents, such as the 27.5 of the
  example, that is the total.
\<close>

lemma refund_cents_default:
  "refund_cents None ord = cents (p_total (o_pricing ord))"
  by (simp add: refund_cents_def)

lemma refund_default_example:
  "js_div_100 (refund_cents None ex_salad_order) = p_total (o_pricing ex_salad_order)"
  by (simp add: refund_cents_def ex_salad_order_def fl_eval)

text \<open>
  For a total that is not in whole cents the recorded amount is not the total: the
  total 28.599999999999998 of the pricing of a subtotal of 26 is refunded as 28.6.
\<close>

lemma refund_default_rounds:
  "js_div_100 (cents (Finite (8050184333924761 / 2 ^ 48))) = fl (286 / 10)
   \<and> fl (286 / 10) \<noteq> Finite (8050184333924761 / 2 ^ 48)"
  by (simp add: fl_eval)

text \<open>
  C3. A successful refund on an order with a completed payment and an intent on record
  refunds the full total when no amount is given, marks the payment refunded with time
  and amount, and drives the order to refunded from any status, with the given reason
  and the role of the actor recorded in the tracking of the order. The route hands the
  reason and the role to \<^verbatim>\<open>updateStatus('refunded', ...)\<close>, but the \<^verbatim>\<open>switch\<close> of
  \<^verbatim>\<open>updateStatus\<close> has no case for \<^verbatim>\<open>refunded\<close>, so they are dropped. On the
  delivered and paid order with a total of 27.5, the refund of the admin with the
  reason \<^verbatim>\<open>cold food\<close> succeeds; the stored order is the order before with the status
  refunded and the payment refunded at time 3000 with the amount 27.5, and nothing
  else: its tracking is as before, with no cancellation record, and holds neither the
  reason nor the role.
\<close>

theorem refundOrder_drops_reason:
  "refundOrder ex_refund [ex_salad_order] ex_admin 3000 ex_refund_req
     = (Inr (ex_salad_order
               \<lparr> o_payment := (o_payment ex_salad_order)
                   \<lparr> pay_status := Pay_refunded, pay_refundedAt := Some 3000,
                     pay_refundAmount := Some (Finite (55 / 2)) \<rparr>,
                 o_status := Refunded \<rparr>),
        [ex_salad_order
           \<lparr> o_payment := (o_payment ex_salad_order)
               \<lparr> pay_status := Pay_refunded, pay_refundedAt := Some 3000,
                 pay_refundAmount := Some (Finite (55 / 2)) \<rparr>,
             o_status := Refunded \<rparr>])
   \<and> rf_reason ex_refund_req = Some ''cold food''
   \<and> o_status ex_salad_order = Delivered
   \<and> o_tracking (projr (fst (refundOrder ex_refund [ex_salad_order] ex_admin 3000
                                ex_refund_req))) = o_tracking ex_salad_order
   \<and> t_cancelled (o_tracking (projr (fst (refundOrder ex_refund [ex_salad_order] ex_admin 3000
                                             ex_refund_req)))) = None"
  by (simp add: ex_defs pay_defs store_defs status_defs fl_eval)

subsection \<open>Gateway failures\<close>

text \<open>
  C7. When the gateway call of createPaymentIntent, confirmPayment or refund fails,
  the operation answers PaymentGatewayError and the collection of orders is as it was
  before the call. The call of createPaymentIntent is reached by the customer of a
  pending order that is not yet paid; the call of confirmPayment by every request with
  an intent identifier; the call of refund by a valid request of the customer, the
  restaurant owner or an admin on an order with a completed payment and an intent on
  record.
\<close>

theorem gateway_failure_leaves_orders:
  "(findById orders oid = Some ord \<and> o_customer ord = u_id u \<and> o_status ord = Pending
      \<and> pay_status (o_payment ord) \<noteq> Pay_completed
      \<and> stripe_create (cents (p_total (o_pricing ord))) pm = Threw
     \<longrightarrow> createPaymentIntent stripe_create orders u oid pm = (Inl PaymentGatewayError, orders))
   \<and> (pid \<noteq> [] \<and> stripe_retrieve pid = Threw
     \<longrightarrow> confirmPayment stripe_retrieve orders u now pid = (Inl PaymentGatewayError, orders))
   \<and> (validate_refund req \<and> findById orders (rf_orderId req) = Some ord2
      \<and> (o_customer ord2 = u_id u \<or> o_restaurant_owner ord2 = u_id u \<or> u_role u = Admin)
      \<and> pay_status (o_payment ord2) = Pay_completed
      \<and> pay_stripePaymentIntentId (o_payment ord2) = Some pid2 \<and> pid2 \<noteq> []
      \<and> stripe_refund pid2 (refund_cents (rf_amount req) ord2) = Threw
     \<longrightarrow> refundOrder stripe_refund orders u now req = (Inl PaymentGatewayError, orders))"
  by (simp add: createPaymentIntent_def confirmPayment_def refundOrder_def)

text \<open>The three operations of the customer against a gateway that is down.\<close>

theorem gateway_failure_leaves_orders_witness:
  "createPaymentIntent ex_create_down [ex_order Pending Pay_pending, ex_salad_order] ex_customer 100 None
     = (Inl PaymentGatewayError, [ex_order Pending Pay_pending, ex_salad_order])
   \<and> confirmPayment ex_retrieve_down [ex_order Pending Pay_pending, ex_salad_order] ex_customer 2000 ''pi_1''
     = (Inl PaymentGatewayError, [ex_order Pending Pay_pending, ex_salad_order])
   \<and> refundOrder ex_refund_down [ex_order Pending Pay_pending, ex_salad_order] ex_customer 2000 ex_refund_req
     = (Inl PaymentGatewayError, [ex_order Pending Pay_pending, ex_salad_order])"
proof -
  let ?orders = "[ex_order Pending Pay_pending, ex_salad_order]"
  let ?ord = "ex_order Pending Pay_pending"
  have a: "findById ?orders 100 = Some ?ord \<and> o_customer ?ord = u_id ex_customer
      \<and> o_status ?ord = Pending \<and> pay_status (o_payment ?ord) \<noteq> Pay_completed
      \<and> ex_create_down (cents (p_total (o_pricing ?ord))) None = Threw"
    by (simp add: findById_def ex_order_def ex_customer_def ex_create_down_def)
  have b: "''pi_1'' \<noteq> [] \<and> ex_retrieve_down ''pi_1'' = Threw"
    by (simp add: ex_retrieve_down_def)
  have c: "validate_refund ex_refund_req
      \<and> findById ?orders (rf_orderId ex_refund_req) = Some ex_salad_order
      \<and> (o_customer ex_salad_order = u_id ex_customer
            \<or> o_restaurant_owner ex_salad_order = u_id ex_customer
            \<or> u_role ex_customer = Admin)
      \<and> pay_status (o_payment ex_salad_order) = Pay_completed
      \<and> pay_stripePaymentIntentId (o_payment ex_salad_order) = Some ''pi_2'' \<and> ''pi_2'' \<noteq> []
      \<and> ex_refund_down ''pi_2'' (refund_cents (rf_amount ex_refund_req) ex_salad_order) = Threw"
    by (simp add: validate_refund_def findById_def ex_order_def ex_salad_order_def
        ex_refund_req_def ex_customer_def ex_refund_down_def)
  note t = gateway_failure_leaves_orders [where orders = ?orders and u = ex_customer and now = 2000
      and stripe_create = ex_create_down and stripe_retrieve = ex_retrieve_down
      and stripe_refund = ex_refund_down]
  from t [THEN conjunct1, THEN mp, OF a] t [THEN conjunct2, THEN conjunct1, THEN mp, OF b]
    t [THEN conjunct2, THEN conjunct2, THEN mp, OF c]
  show ?thesis by simp
qed

end
